theory Spec2Isabelle
  imports Complex_Main "HOL-Library.Sublist"
begin

text \<open>
  A model of the form logic of the UniMatch front end, \<open>src/frontend/app.js\<close>: the field
  accessor \<open>val\<close>, the selection store \<open>SELECTION_PAIRS\<close> with the functions that read
  and change it, \<open>validateForm\<close>, \<open>collectPayload\<close> and the click handler of the predict
  button. The chatbot variant of the file defines these functions with the same code;
  only the dash in its first validation message is stored differently.

  The store is passed explicitly: a function that assigns to \<open>SELECTION_PAIRS\<close> or to a
  DOM property takes the store and returns the new one. Functions that only read are
  functions of the store, the form and the knowledge base.
\<close>

section \<open>JavaScript values used by the form code\<close>

text \<open>
  Strings are lists of characters. The model covers ASCII text: \<open>trim\<close> removes the ASCII
  white space and line terminators (tab, LF, VT, FF, CR, space) and \<open>toLowerCase\<close> maps
  \<open>A..Z\<close> to \<open>a..z\<close>.

  A JavaScript number is \<open>NaN\<close>, an infinity, or a finite value. Finite values are kept as
  exact rationals: the rounding of a decimal literal to the nearest double and the sign of
  zero are not modelled.
\<close>

datatype number = NaN | NegInfinity | Finite rat | Infinity

datatype jsval = Undefined | Num number | Str string

definition isWhiteSpace :: "char \<Rightarrow> bool" where
  "isWhiteSpace c = ((of_char c :: nat) \<in> {9, 10, 11, 12, 13, 32})"

definition trim :: "string \<Rightarrow> string" where
  "trim s = rev (dropWhile isWhiteSpace (rev (dropWhile isWhiteSpace s)))"

definition toLowerChar :: "char \<Rightarrow> char" where
  "toLowerChar c =
     (if 65 \<le> (of_char c :: nat) \<and> (of_char c :: nat) \<le> 90
      then char_of ((of_char c :: nat) + 32) else c)"

definition toLowerCase :: "string \<Rightarrow> string" where
  "toLowerCase s = map toLowerChar s"

text \<open>\<open>s.includes(q)\<close>: \<open>q\<close> occurs in \<open>s\<close> as a contiguous substring.\<close>

fun includes_str :: "string \<Rightarrow> string \<Rightarrow> bool" where
  "includes_str [] q = (q = [])"
| "includes_str (c # s) q = (prefix q (c # s) \<or> includes_str s q)"

text \<open>\<open>String(n)\<close> for a natural number, in decimal.\<close>

fun ToString :: "nat \<Rightarrow> string" where
  "ToString n =
     (if n < 10 then [char_of (48 + n)]
      else ToString (n div 10) @ [char_of (48 + n mod 10)])"

declare ToString.simps [simp del]

subsection \<open>\<open>Number(text)\<close>: the StringToNumber conversion\<close>

text \<open>
  The grammar of ECMAScript's StringNumericLiteral: optional white space around either a
  radix-prefixed integer (\<open>0x\<close>, \<open>0o\<close>, \<open>0b\<close>, no sign) or an optionally signed decimal
  literal (\<open>Infinity\<close>, or digits with an optional fraction and exponent). The empty
  text converts to 0; any other text that is not of this form converts to \<open>NaN\<close>.
\<close>

definition digitValue :: "char \<Rightarrow> nat option" where
  "digitValue c =
     (let n = (of_char c :: nat) in
      if 48 \<le> n \<and> n \<le> 57 then Some (n - 48)
      else if 97 \<le> n \<and> n \<le> 102 then Some (n - 87)
      else if 65 \<le> n \<and> n \<le> 70 then Some (n - 55)
      else None)"

definition digitsIn :: "nat \<Rightarrow> string \<Rightarrow> nat option" where
  "digitsIn radix s =
     (if s = [] then None
      else foldl (\<lambda>acc c.
             case acc of None \<Rightarrow> None
             | Some a \<Rightarrow>
                 (case digitValue c of None \<Rightarrow> None
                  | Some d \<Rightarrow> if d < radix then Some (radix * a + d) else None))
           (Some 0) s)"

definition digitsOrEmpty :: "string \<Rightarrow> nat option" where
  "digitsOrEmpty s = (if s = [] then Some 0 else digitsIn 10 s)"

definition splitAtFirst :: "(char \<Rightarrow> bool) \<Rightarrow> string \<Rightarrow> string \<times> string option" where
  "splitAtFirst P s =
     (case dropWhile (\<lambda>c. \<not> P c) s of
        [] \<Rightarrow> (s, None)
      | c # rest \<Rightarrow> (takeWhile (\<lambda>c. \<not> P c) s, Some rest))"

definition stripSign :: "string \<Rightarrow> bool \<times> string" where
  "stripSign s =
     (case s of
        [] \<Rightarrow> (False, [])
      | c # r \<Rightarrow>
          if c = CHR ''-'' then (True, r)
          else if c = CHR ''+'' then (False, r)
          else (False, s))"

definition exponentPart :: "string \<Rightarrow> int option" where
  "exponentPart s =
     (case stripSign s of
        (neg, ds) \<Rightarrow>
          (case digitsIn 10 ds of
             None \<Rightarrow> None
           | Some n \<Rightarrow> Some (if neg then - int n else int n)))"

definition mantissa :: "string \<Rightarrow> rat option" where
  "mantissa m =
     (case splitAtFirst (\<lambda>c. c = CHR ''.'') m of
        (ip, None) \<Rightarrow>
          (case digitsIn 10 ip of None \<Rightarrow> None | Some i \<Rightarrow> Some (of_nat i))
      | (ip, Some fp) \<Rightarrow>
          if ip = [] \<and> fp = [] then None
          else (case digitsOrEmpty ip of
                  None \<Rightarrow> None
                | Some i \<Rightarrow>
                    (case digitsOrEmpty fp of
                       None \<Rightarrow> None
                     | Some f \<Rightarrow> Some (of_nat i + of_nat f / 10 ^ length fp))))"

definition scale10 :: "rat \<Rightarrow> int \<Rightarrow> rat" where
  "scale10 x k = (if 0 \<le> k then x * 10 ^ nat k else x / 10 ^ nat (- k))"

definition unsignedDecimal :: "string \<Rightarrow> number" where
  "unsignedDecimal s =
     (if s = ''Infinity'' then Infinity
      else (case splitAtFirst (\<lambda>c. c = CHR ''e'' \<or> c = CHR ''E'') s of
              (m, None) \<Rightarrow> (case mantissa m of None \<Rightarrow> NaN | Some x \<Rightarrow> Finite x)
            | (m, Some e) \<Rightarrow>
                (case mantissa m of
                   None \<Rightarrow> NaN
                 | Some x \<Rightarrow>
                     (case exponentPart e of
                        None \<Rightarrow> NaN
                      | Some k \<Rightarrow> Finite (scale10 x k)))))"

definition negate :: "number \<Rightarrow> number" where
  "negate n =
     (case n of NaN \<Rightarrow> NaN | NegInfinity \<Rightarrow> Infinity
      | Finite x \<Rightarrow> Finite (- x) | Infinity \<Rightarrow> NegInfinity)"

definition radixLiteral :: "nat \<Rightarrow> string \<Rightarrow> number" where
  "radixLiteral radix ds = (case digitsIn radix ds of None \<Rightarrow> NaN | Some n \<Rightarrow> Finite (of_nat n))"

definition Number :: "string \<Rightarrow> number" where
  "Number text =
     (let s = trim text in
      if s = [] then Finite 0
      else if take 2 s = ''0x'' \<or> take 2 s = ''0X'' then radixLiteral 16 (drop 2 s)
      else if take 2 s = ''0o'' \<or> take 2 s = ''0O'' then radixLiteral 8 (drop 2 s)
      else if take 2 s = ''0b'' \<or> take 2 s = ''0B'' then radixLiteral 2 (drop 2 s)
      else (case stripSign s of
              (neg, r) \<Rightarrow> if neg then negate (unsignedDecimal r) else unsignedDecimal r))"

subsection \<open>Conversions and \<open>Math\<close>\<close>

definition ToNumber :: "jsval \<Rightarrow> number" where
  "ToNumber v = (case v of Undefined \<Rightarrow> NaN | Num n \<Rightarrow> n | Str s \<Rightarrow> Number s)"

text \<open>\<open>ToBoolean\<close>: what \<open>!v\<close> and \<open>if (v)\<close> test.\<close>

definition truthy :: "jsval \<Rightarrow> bool" where
  "truthy v =
     (case v of
        Undefined \<Rightarrow> False
      | Num n \<Rightarrow> n \<noteq> NaN \<and> n \<noteq> Finite 0
      | Str s \<Rightarrow> s \<noteq> [])"

definition typeof :: "jsval \<Rightarrow> string" where
  "typeof v =
     (case v of Undefined \<Rightarrow> ''undefined'' | Num n \<Rightarrow> ''number'' | Str s \<Rightarrow> ''string'')"

fun num_le :: "number \<Rightarrow> number \<Rightarrow> bool" where
  "num_le NaN b = False"
| "num_le a NaN = False"
| "num_le NegInfinity b = True"
| "num_le (Finite x) NegInfinity = False"
| "num_le (Finite x) (Finite y) = (x \<le> y)"
| "num_le (Finite x) Infinity = True"
| "num_le Infinity b = (b = Infinity)"

definition Math_min :: "number \<Rightarrow> number \<Rightarrow> number" where
  "Math_min a b = (if a = NaN \<or> b = NaN then NaN else if num_le a b then a else b)"

definition Math_max :: "number \<Rightarrow> number \<Rightarrow> number" where
  "Math_max a b = (if a = NaN \<or> b = NaN then NaN else if num_le a b then b else a)"

text \<open>\<open>Math.round\<close> rounds to the nearest integer, halves upwards.\<close>

definition Math_round :: "jsval \<Rightarrow> number" where
  "Math_round v =
     (case ToNumber v of
        Finite x \<Rightarrow> Finite (of_int \<lfloor>x + 1 / 2\<rfloor>)
      | n \<Rightarrow> n)"

section \<open>The field accessor\<close>

definition GRADE_FIELDS :: "string list" where
  "GRADE_FIELDS =
     [''s1'', ''s2'', ''s3'', ''s4'', ''s5'',
      ''math'', ''language'', ''physics'', ''chemistry'', ''biology'',
      ''economics'', ''geography'', ''history'']"

definition NUMERIC_FIELDS :: "string list" where
  "NUMERIC_FIELDS = GRADE_FIELDS @ [''rank_percentile'']"

text \<open>
  \<open>clamp(n,min,max)\<close>: \<open>undefined\<close> for \<open>NaN\<close>, otherwise
  \<open>Math.max(min, Math.min(max, n))\<close>.
\<close>

definition clamp :: "jsval \<Rightarrow> number \<Rightarrow> number \<Rightarrow> jsval" where
  "clamp n lo hi =
     (if n = Num NaN then Undefined
      else Num (Math_max lo (Math_min hi (ToNumber n))))"

text \<open>
  The form: the \<open>value\<close> of the element with a given id, \<open>None\<close> when the document has no
  such element.
\<close>

type_synonym form = "string \<Rightarrow> string option"

definition val :: "form \<Rightarrow> string \<Rightarrow> jsval" where
  "val f fid =
     (case f fid of
        None \<Rightarrow> Undefined
      | Some v \<Rightarrow>
          (let raw = trim v in
           if raw = [] then Undefined
           else if Number raw \<noteq> NaN \<and> fid \<in> set NUMERIC_FIELDS then
             (let n = Num (Number raw);
                  n = (if fid \<in> set GRADE_FIELDS then clamp n (Finite 0) (Finite 100) else n);
                  n = (if fid = ''rank_percentile''
                       then clamp (Num (Math_round n)) (Finite 1) (Finite 100) else n)
              in n)
           else Str raw))"

definition atLeastOneGradeFilled :: "form \<Rightarrow> bool" where
  "atLeastOneGradeFilled f = list_ex (\<lambda>k. typeof (val f k) = ''number'') (take 5 GRADE_FIELDS)"

section \<open>The knowledge base and the selection store\<close>

text \<open>
  \<open>UNIVERSITIES_DATA.all\<close>, \<open>MAJORS_DATA.all\<close> and \<open>MAJORS_DATA.details\<close>, as loaded from
  the service. \<open>details\<close> maps a key \<open>"University | Major"\<close> to an entry; \<open>None\<close> is
  JavaScript's \<open>undefined\<close> for a key the object does not have.
\<close>

record detail =
  program :: "string option"
  tags :: "string list"

record kb =
  universities :: "string list"
  majors :: "string list"
  details :: "string \<Rightarrow> detail option"

datatype choiceKey = choice1 | choice2 | choice3

datatype kind = University | Major

text \<open>
  What a dropdown's \<open>innerHTML\<close> holds: the \<open>.opt\<close> entries (each carries a handler that
  calls \<open>selectItem\<close> with its item), or one of the two \<open>.empty\<close> messages.
\<close>

datatype dropdown_html = Options "string list" | NoneAvailable kind | NoMatches string

text \<open>
  One selector of \<open>SELECTION_PAIRS\<close>: its \<open>selected\<close> value (\<open>None\<close> is \<open>null\<close>), the text
  of its input, its dropdown, and \<open>disabled\<close>. Only a major selector has the property
  \<open>disabled\<close>, and the code reads and writes it for major selectors only; for a university
  selector the field stands for the missing property and stays \<open>False\<close>. The chip markup of
  \<open>renderSelectedItem\<close>, placeholders and CSS classes are presentation and are left out.
\<close>

record selector =
  selected :: "string option"
  input_value :: string
  dropdown_hidden :: bool
  dropdown :: dropdown_html
  disabled :: bool

type_synonym store = "choiceKey \<Rightarrow> kind \<Rightarrow> selector"

definition SELECTION_PAIRS :: store where
  "SELECTION_PAIRS =
     (\<lambda>key ty. \<lparr>selected = None, input_value = [], dropdown_hidden = True,
                dropdown = Options [], disabled = (ty = Major)\<rparr>)"

definition Object_keys :: "choiceKey list" where
  "Object_keys = [choice1, choice2, choice3]"

text \<open>\<open>SELECTION_PAIRS[choiceKey][type] = s\<close>.\<close>

definition assign :: "store \<Rightarrow> choiceKey \<Rightarrow> kind \<Rightarrow> selector \<Rightarrow> store" where
  "assign S choiceKey ty s = S(choiceKey := (S choiceKey)(ty := s))"

text \<open>The test \<open>if (x.selected)\<close>: neither \<open>null\<close> nor the empty string.\<close>

definition nonEmpty :: "string option \<Rightarrow> bool" where
  "nonEmpty x = (case x of None \<Rightarrow> False | Some s \<Rightarrow> s \<noteq> [])"

definition getMajorsForUniversity :: "kb \<Rightarrow> string option \<Rightarrow> string list" where
  "getMajorsForUniversity K universityName =
     (case universityName of
        None \<Rightarrow> []
      | Some u \<Rightarrow>
          if u = [] then []
          else filter (\<lambda>m. details K (u @ '' | '' @ m) \<noteq> None) (majors K))"

definition getSelectedUniversities :: "store \<Rightarrow> string list" where
  "getSelectedUniversities S =
     foldl (\<lambda>sel key.
        case selected (S key University) of
          None \<Rightarrow> sel
        | Some u \<Rightarrow> if u \<noteq> [] then sel @ [u] else sel) [] Object_keys"

definition getSelectedMajors :: "store \<Rightarrow> string list" where
  "getSelectedMajors S =
     foldl (\<lambda>sel key.
        case selected (S key Major) of
          None \<Rightarrow> sel
        | Some m \<Rightarrow> if m \<noteq> [] then sel @ [m] else sel) [] Object_keys"

definition getAvailableUniversities :: "kb \<Rightarrow> store \<Rightarrow> choiceKey \<Rightarrow> string list" where
  "getAvailableUniversities K S currentKey =
     (let alreadySelected =
            foldl (\<lambda>acc key.
               case selected (S key University) of
                 None \<Rightarrow> acc
               | Some u \<Rightarrow> if key \<noteq> currentKey \<and> u \<noteq> [] then insert u acc else acc)
              {} Object_keys
      in filter (\<lambda>u. u \<notin> alreadySelected) (universities K))"

definition getAvailableMajorsForChoice :: "kb \<Rightarrow> store \<Rightarrow> choiceKey \<Rightarrow> string list" where
  "getAvailableMajorsForChoice K S choiceKey =
     (let universitySelected = selected (S choiceKey University) in
      if \<not> nonEmpty universitySelected then []
      else
        (let alreadySelectedMajors =
               foldl (\<lambda>acc key.
                  case selected (S key Major) of
                    None \<Rightarrow> acc
                  | Some m \<Rightarrow> if key \<noteq> choiceKey \<and> m \<noteq> [] then insert m acc else acc)
                 {} Object_keys
         in filter (\<lambda>m. m \<notin> alreadySelectedMajors)
              (getMajorsForUniversity K universitySelected)))"

definition setMajorDisabled :: "store \<Rightarrow> choiceKey \<Rightarrow> bool \<Rightarrow> store" where
  "setMajorDisabled S choiceKey d =
     assign S choiceKey Major ((S choiceKey Major)\<lparr>disabled := d\<rparr>)"

text \<open>
  \<open>clearSelection\<close> calls itself once, with \<open>'major'\<close>, when it clears a university; the
  inner call takes the other branch, so the recursion is written out.
\<close>

definition clearOne :: "store \<Rightarrow> choiceKey \<Rightarrow> kind \<Rightarrow> store" where
  "clearOne S choiceKey ty =
     assign S choiceKey ty
       ((S choiceKey ty)\<lparr>selected := None, input_value := [], dropdown_hidden := True\<rparr>)"

definition clearSelection :: "store \<Rightarrow> choiceKey \<Rightarrow> kind \<Rightarrow> store" where
  "clearSelection S choiceKey ty =
     (let S1 = clearOne S choiceKey ty in
      if ty = University then setMajorDisabled (clearOne S1 choiceKey Major) choiceKey True
      else S1)"

definition selectItem :: "store \<Rightarrow> choiceKey \<Rightarrow> kind \<Rightarrow> string \<Rightarrow> store" where
  "selectItem S choiceKey ty item =
     (let S1 = assign S choiceKey ty
                 ((S choiceKey ty)\<lparr>selected := Some item, input_value := [],
                                    dropdown_hidden := True\<rparr>) in
      if ty = University then setMajorDisabled (clearSelection S1 choiceKey Major) choiceKey False
      else S1)"

text \<open>
  The list \<open>available\<close> that \<open>showAllOptions\<close> and \<open>renderSearchResults\<close> compute for a
  selector. Both return before computing it when a major selector is disabled, so a
  disabled major selector offers nothing.
\<close>

definition availableFor :: "kb \<Rightarrow> store \<Rightarrow> choiceKey \<Rightarrow> kind \<Rightarrow> string list" where
  "availableFor K S choiceKey ty =
     (case ty of
        University \<Rightarrow> getAvailableUniversities K S choiceKey
      | Major \<Rightarrow>
          if disabled (S choiceKey Major) then []
          else getAvailableMajorsForChoice K S choiceKey)"

definition showAllOptions :: "kb \<Rightarrow> store \<Rightarrow> choiceKey \<Rightarrow> kind \<Rightarrow> store" where
  "showAllOptions K S choiceKey ty =
     (let sel = S choiceKey ty in
      if ty = Major \<and> disabled sel then S
      else
        (let available = availableFor K S choiceKey ty in
         if available = [] then
           assign S choiceKey ty (sel\<lparr>dropdown := NoneAvailable ty, dropdown_hidden := False\<rparr>)
         else
           assign S choiceKey ty
             (sel\<lparr>dropdown := Options (take 12 available), dropdown_hidden := False\<rparr>)))"

definition renderSearchResults :: "kb \<Rightarrow> store \<Rightarrow> choiceKey \<Rightarrow> kind \<Rightarrow> string \<Rightarrow> store" where
  "renderSearchResults K S choiceKey ty query =
     (let sel = S choiceKey ty in
      if query = [] then assign S choiceKey ty (sel\<lparr>dropdown_hidden := True\<rparr>)
      else if ty = Major \<and> disabled sel then S
      else
        (let available = availableFor K S choiceKey ty;
             filtered = take 12 (filter (\<lambda>item.
                          includes_str (toLowerCase item) (toLowerCase query)) available)
         in if filtered = [] then
              assign S choiceKey ty (sel\<lparr>dropdown := NoMatches query, dropdown_hidden := False\<rparr>)
            else
              assign S choiceKey ty (sel\<lparr>dropdown := Options filtered, dropdown_hidden := False\<rparr>)))"

text \<open>The selection part of the reset button's handler.\<close>

definition resetSelections :: "store \<Rightarrow> store" where
  "resetSelections S =
     foldl (\<lambda>S choiceKey.
        setMajorDisabled
          (clearSelection (clearSelection S choiceKey University) choiceKey Major)
          choiceKey True) S Object_keys"

text \<open>The options a dropdown shows: none while it is hidden or holds a message.\<close>

definition shownOptions :: "selector \<Rightarrow> string list" where
  "shownOptions sel =
     (if dropdown_hidden sel then []
      else (case dropdown sel of Options items \<Rightarrow> items | NoneAvailable ty \<Rightarrow> [] | NoMatches q \<Rightarrow> []))"

section \<open>Validation, payload and the predict button\<close>

text \<open>
  The dash of the first message is U+2014, written here as its UTF-8 bytes. (The chatbot
  variant of the file holds three other characters in its place.)
\<close>

definition emDash :: string where
  "emDash = [char_of (226 :: nat), char_of (128 :: nat), char_of (148 :: nat)]"

definition validateForm :: "store \<Rightarrow> form \<Rightarrow> string list" where
  "validateForm S f =
     (let issues = [];
          issues = (if \<not> atLeastOneGradeFilled f
                    then issues @ [''Please fill at least one of S1'' @ emDash @ ''S5 grades'']
                    else issues);
          selectedUniversities = getSelectedUniversities S;
          selectedMajors = getSelectedMajors S;
          issues = (if length selectedUniversities = 0
                    then issues @ [''Please select at least one target university'']
                    else issues);
          issues = (if length selectedMajors = 0
                    then issues @ [''Please select at least one target major'']
                    else issues);
          issues = foldl (\<lambda>issues (index, key).
                      let majorSelected = selected (S key Major)
                      in case selected (S key University) of
                           None \<Rightarrow> issues
                         | Some univSelected \<Rightarrow>
                             if univSelected \<noteq> [] \<and> \<not> nonEmpty majorSelected
                             then issues @ [''Please select a major for Choice ''
                                            @ ToString (index + 1)
                                            @ '' ('' @ univSelected @ '')'']
                             else issues)
                     issues (enumerate 0 Object_keys);
          program = val f ''program'';
          issues = (if program = Str ''saintek'' \<and> length selectedMajors > 0 then
                      (let issues = (if \<not> truthy (val f ''math'')
                                     then issues @ [''Math grade is highly recommended for Saintek program'']
                                     else issues)
                       in if \<not> truthy (val f ''physics'') \<and> \<not> truthy (val f ''chemistry'')
                             \<and> \<not> truthy (val f ''biology'')
                          then issues @ [''At least one science subject (Physics/Chemistry/Biology) is recommended'']
                          else issues)
                    else issues);
          issues = (if program = Str ''soshum'' \<and> length selectedMajors > 0 then
                      (if \<not> truthy (val f ''language'')
                       then issues @ [''Language grade is highly recommended for Soshum program'']
                       else issues)
                    else issues)
      in issues)"

text \<open>
  The request body. \<open>None\<close> in a positional field is \<open>null\<close>; a field whose value is
  \<open>Undefined\<close> is dropped when the body is serialised.
\<close>

record payload =
  p_program :: jsval
  target_university :: string
  target_universities :: "string list"
  target_university_1 :: "string option"
  target_university_2 :: "string option"
  target_university_3 :: "string option"
  target_major :: string
  target_majors :: "string list"
  target_major_1 :: "string option"
  target_major_2 :: "string option"
  target_major_3 :: "string option"
  competitiveness :: jsval
  grades :: "(string \<times> jsval) list"
  rank_percentile :: jsval
  achievement :: jsval
  accreditation :: jsval

text \<open>\<open>list[0] || "Unknown"\<close>, \<open>x || null\<close> and \<open>v ?? 100\<close>.\<close>

definition firstOrUnknown :: "string list \<Rightarrow> string" where
  "firstOrUnknown xs =
     (case xs of [] \<Rightarrow> ''Unknown'' | x # rest \<Rightarrow> if x \<noteq> [] then x else ''Unknown'')"

definition orNull :: "string option \<Rightarrow> string option" where
  "orNull x = (if nonEmpty x then x else None)"

definition orDefault :: "jsval \<Rightarrow> jsval \<Rightarrow> jsval" where
  "orDefault v d = (case v of Undefined \<Rightarrow> d | Num n \<Rightarrow> v | Str s \<Rightarrow> v)"

text \<open>
  \<open>grades\<close> holds the thirteen properties \<open>s1: val("s1"), ..., history: val("history")\<close> in
  the order of the object literal, which is the order of \<open>GRADE_FIELDS\<close>.
\<close>

definition collectPayload :: "store \<Rightarrow> form \<Rightarrow> payload" where
  "collectPayload S f =
     (let selectedUniversities = getSelectedUniversities S;
          selectedMajors = getSelectedMajors S
      in \<lparr>p_program = val f ''program'',
          target_university = firstOrUnknown selectedUniversities,
          target_universities = selectedUniversities,
          target_university_1 = orNull (selected (S choice1 University)),
          target_university_2 = orNull (selected (S choice2 University)),
          target_university_3 = orNull (selected (S choice3 University)),
          target_major = firstOrUnknown selectedMajors,
          target_majors = selectedMajors,
          target_major_1 = orNull (selected (S choice1 Major)),
          target_major_2 = orNull (selected (S choice2 Major)),
          target_major_3 = orNull (selected (S choice3 Major)),
          competitiveness = val f ''competitiveness'',
          grades = map (\<lambda>k. (k, val f k)) GRADE_FIELDS,
          rank_percentile = orDefault (val f ''rank_percentile'') (Num (Finite 100)),
          achievement = val f ''achievement'',
          accreditation = val f ''accreditation''\<rparr>)"

subsection \<open>The click handler of the predict button\<close>

text \<open>
  A reply of the service to one \<open>fetch\<close>: the promise rejects (or reading the body throws)
  with a message, or it resolves with a status and a body. The object \<open>renderResult\<close>
  receives either has a truthy \<open>error\<close> property (an array, or a non-empty string) or is
  rendered as a prediction, whose markup is kept abstract. The body of \<open>/api/recommend\<close>
  is \<open>None\<close> when it has neither \<open>preferred\<close> nor \<open>alternatives\<close>.
\<close>

datatype 'a fetched = Rejected string | Response nat 'a

datatype 'p data = ErrorArray "string list" | ErrorString string | Prediction 'p

text \<open>
  The result area: the error list (\<open>Please check:\<close> and one \<open>li\<close> per entry), an error
  line, or a rendered prediction; and the recommendation tables appended after it.
\<close>

datatype 'p shown = Untouched | ErrorItems "string list" | ErrorLine string | Probability 'p

record ('p, 'r) result_area =
  main :: "'p shown"
  tables :: "'r list"

datatype request = PostPredict payload | PostRecommend payload

record ('p, 'r) page =
  pairs :: store
  inputs :: form
  result :: "('p, 'r) result_area"
  requests :: "request list"
  loading :: bool

text \<open>\<open>renderResult\<close> replaces the content of the result area.\<close>

definition renderResult :: "'p data \<Rightarrow> ('p, 'r) result_area" where
  "renderResult d =
     (case d of
        ErrorArray es \<Rightarrow> \<lparr>main = ErrorItems es, tables = []\<rparr>
      | ErrorString e \<Rightarrow> \<lparr>main = ErrorLine e, tables = []\<rparr>
      | Prediction p \<Rightarrow> \<lparr>main = Probability p, tables = []\<rparr>)"

definition renderRecommendations :: "('p, 'r) result_area \<Rightarrow> 'r \<Rightarrow> ('p, 'r) result_area" where
  "renderRecommendations el blocks = el\<lparr>tables := tables el @ [blocks]\<rparr>"

definition ok :: "nat \<Rightarrow> bool" where
  "ok status = (200 \<le> status \<and> status \<le> 299)"

text \<open>
  The handler, given the replies the two requests get if they are sent. An exception in
  the \<open>try\<close> block is rendered by \<open>renderResult({error: err.message || ...})\<close>, and
  \<open>setLoading(false)\<close> runs last on every path that entered the block.
\<close>

definition caught :: "string \<Rightarrow> ('p, 'r) result_area" where
  "caught msg =
     renderResult (ErrorString
        (if msg \<noteq> [] then msg else ''Unable to connect to server. Please try again.''))"

definition predictBtn_click ::
  "'p data fetched \<Rightarrow> 'r option fetched \<Rightarrow> ('p, 'r) page \<Rightarrow> ('p, 'r) page" where
  "predictBtn_click predictReply recommendReply pg =
     (let issues = validateForm (pairs pg) (inputs pg) in
      if length issues > 0 then pg\<lparr>result := renderResult (ErrorArray issues)\<rparr>
      else
        (let body = collectPayload (pairs pg) (inputs pg);
             pg = pg\<lparr>loading := True, requests := requests pg @ [PostPredict body]\<rparr>;
             pg =
               (case predictReply of
                  Rejected msg \<Rightarrow> pg\<lparr>result := caught msg\<rparr>
                | Response status d \<Rightarrow>
                    if \<not> ok status then
                      pg\<lparr>result := caught (''Server error: '' @ ToString status)\<rparr>
                    else
                      (let pg = pg\<lparr>result := renderResult d,
                                    requests := requests pg @ [PostRecommend body]\<rparr>
                       in case recommendReply of
                            Rejected msg \<Rightarrow> pg\<lparr>result := caught msg\<rparr>
                          | Response st blocks \<Rightarrow>
                              if ok st then
                                (case blocks of
                                   None \<Rightarrow> pg
                                 | Some b \<Rightarrow> pg\<lparr>result := renderRecommendations (result pg) b\<rparr>)
                              else pg))
         in pg\<lparr>loading := False\<rparr>))"

section \<open>Reachable stores\<close>

text \<open>
  The stores the three operations produce from the initial one, where every selected
  item is one the selector offers (\<open>availableFor\<close>, of which the options shown and the
  search results are a part) and satisfies \<open>pick\<close>. The knowledge base may differ from
  step to step: it is empty until the two lists have loaded.
\<close>

inductive reachable :: "(string \<Rightarrow> bool) \<Rightarrow> store \<Rightarrow> bool" for pick :: "string \<Rightarrow> bool" where
  initial: "reachable pick SELECTION_PAIRS"
| select: "reachable pick S \<Longrightarrow> item \<in> set (availableFor K S choiceKey ty) \<Longrightarrow> pick item
           \<Longrightarrow> reachable pick (selectItem S choiceKey ty item)"
| clear: "reachable pick S \<Longrightarrow> reachable pick (clearSelection S choiceKey ty)"
| reset: "reachable pick S \<Longrightarrow> reachable pick (resetSelections S)"

text \<open>The two conditions on selected items that the statements use.\<close>

definition anyItem :: "string \<Rightarrow> bool" where
  "anyItem item = True"

definition nonBlank :: "string \<Rightarrow> bool" where
  "nonBlank item = (item \<noteq> [])"

section \<open>The specification's operations, in its own words\<close>

text \<open>The values selected in the slots other than \<open>choiceKey\<close>.\<close>

definition selectedElsewhere :: "store \<Rightarrow> choiceKey \<Rightarrow> kind \<Rightarrow> string set" where
  "selectedElsewhere S choiceKey ty =
     {v. \<exists>key. key \<noteq> choiceKey \<and> selected (S key ty) = Some v \<and> v \<noteq> []}"

text \<open>
  \<open>availableFor(slot, major)\<close> as worded without the guard on the slot's university: the
  majors with a detail key for the selected value, the major selector being enabled.
\<close>

definition majorsByKey :: "kb \<Rightarrow> store \<Rightarrow> choiceKey \<Rightarrow> string list" where
  "majorsByKey K S choiceKey =
     (if disabled (S choiceKey Major) then []
      else filter (\<lambda>m. details K
                       ((case selected (S choiceKey University) of None \<Rightarrow> [] | Some u \<Rightarrow> u)
                        @ '' | '' @ m) \<noteq> None
                     \<and> m \<notin> selectedElsewhere S choiceKey Major)
             (majors K))"

section \<open>Auxiliary notions for the statements\<close>

text \<open>The value a slot contributes to the list of selections: none when it is empty.\<close>

definition slotValue :: "store \<Rightarrow> kind \<Rightarrow> choiceKey \<Rightarrow> string list" where
  "slotValue S ty key =
     (case selected (S key ty) of None \<Rightarrow> [] | Some v \<Rightarrow> if v = [] then [] else [v])"

text \<open>No value is selected in two slots.\<close>

definition unique :: "store \<Rightarrow> kind \<Rightarrow> bool" where
  "unique S ty =
     (\<forall>k k' v. k \<noteq> k' \<and> selected (S k ty) = Some v \<and> v \<noteq> [] \<longrightarrow> selected (S k' ty) \<noteq> Some v)"

text \<open>The dropdown of every disabled major selector is hidden.\<close>

definition quiet :: "store \<Rightarrow> bool" where
  "quiet S = (\<forall>k. disabled (S k Major) \<longrightarrow> dropdown_hidden (S k Major))"

text \<open>
  The issue of the pairing rule for one slot, and the number the message gives the slot.
\<close>

definition slotNumber :: "choiceKey \<Rightarrow> string" where
  "slotNumber key = (case key of choice1 \<Rightarrow> ''1'' | choice2 \<Rightarrow> ''2'' | choice3 \<Rightarrow> ''3'')"

definition missingMajor :: "store \<Rightarrow> choiceKey \<Rightarrow> string list" where
  "missingMajor S key =
     (case selected (S key University) of
        None \<Rightarrow> []
      | Some u \<Rightarrow>
          if u \<noteq> [] \<and> \<not> nonEmpty (selected (S key Major))
          then [''Please select a major for Choice '' @ slotNumber key @ '' ('' @ u @ '')'']
          else [])"

subsection \<open>Sample data\<close>

text \<open>
  A small knowledge base; a store with a complete pair in the first slot and a university
  alone in the third; a store with a complete pair in the second slot only.
\<close>

definition demoKB :: kb where
  "demoKB =
     \<lparr>universities = [''UI'', ''ITB'', ''UGM''],
      majors = [''Fisika'', ''Hukum''],
      details = [''UI | Fisika'' \<mapsto> \<lparr>program = Some ''saintek'', tags = []\<rparr>,
                 ''ITB | Fisika'' \<mapsto> \<lparr>program = Some ''saintek'', tags = []\<rparr>,
                 ''UI | Hukum'' \<mapsto> \<lparr>program = Some ''soshum'', tags = []\<rparr>]\<rparr>"

definition demoStore :: store where
  "demoStore =
     selectItem
       (selectItem (selectItem SELECTION_PAIRS choice1 University ''UI'') choice1 Major ''Fisika'')
       choice3 University ''ITB''"

definition secondOnly :: store where
  "secondOnly =
     selectItem (selectItem SELECTION_PAIRS choice2 University ''ITB'') choice2 Major ''Fisika''"

text \<open>
  A knowledge base that lists the empty string as a university, and the store after
  that item is selected in the first slot.
\<close>

definition blankKB :: kb where
  "blankKB =
     \<lparr>universities = [''''],
      majors = [''Fisika''],
      details = ['' | Fisika'' \<mapsto> \<lparr>program = Some ''saintek'', tags = []\<rparr>]\<rparr>"

definition blankStore :: store where
  "blankStore = selectItem SELECTION_PAIRS choice1 University ''''"

text \<open>Forms for the two programmes, and a page as it is before the first click.\<close>

definition zeroMathForm :: form where
  "zeroMathForm =
     [''program'' \<mapsto> ''saintek'', ''s1'' \<mapsto> ''80'', ''math'' \<mapsto> ''0'', ''physics'' \<mapsto> ''75'']"

definition textMathForm :: form where
  "textMathForm =
     [''program'' \<mapsto> ''saintek'', ''s1'' \<mapsto> ''80'', ''math'' \<mapsto> ''abc'', ''physics'' \<mapsto> ''75'']"

definition noScienceForm :: form where
  "noScienceForm = [''program'' \<mapsto> ''saintek'', ''s1'' \<mapsto> ''80'']"

definition soshumForm :: form where
  "soshumForm = [''program'' \<mapsto> ''soshum'', ''s1'' \<mapsto> ''80'']"

definition freshPage :: "store \<Rightarrow> form \<Rightarrow> (unit, unit) page" where
  "freshPage S f =
     \<lparr>pairs = S, inputs = f, result = \<lparr>main = Untouched, tables = []\<rparr>,
      requests = [], loading = False\<rparr>"

section \<open>Properties of the field accessor\<close>

lemma rank_not_grade: "''rank_percentile'' \<notin> set GRADE_FIELDS"
  by (simp add: GRADE_FIELDS_def)

lemma grade_is_numeric: "fid \<in> set GRADE_FIELDS \<Longrightarrow> fid \<in> set NUMERIC_FIELDS"
  by (simp add: NUMERIC_FIELDS_def)

lemma rank_is_numeric: "''rank_percentile'' \<in> set NUMERIC_FIELDS"
  by (simp add: NUMERIC_FIELDS_def)

lemma clamp_number:
  assumes "lo \<le> hi"
  shows "clamp (Num n) (Finite lo) (Finite hi) =
     (case n of NaN \<Rightarrow> Undefined | NegInfinity \<Rightarrow> Num (Finite lo)
      | Finite x \<Rightarrow> Num (Finite (max lo (min hi x))) | Infinity \<Rightarrow> Num (Finite hi))"
  using assms by (cases n) (auto simp: clamp_def Math_max_def Math_min_def ToNumber_def)

lemma val_missing: "f fid = None \<Longrightarrow> val f fid = Undefined"
  by (simp add: val_def)

lemma val_blank: "f fid = Some v \<Longrightarrow> trim v = [] \<Longrightarrow> val f fid = Undefined"
  by (simp add: val_def)

lemma val_grade:
  assumes "fid \<in> set GRADE_FIELDS" "f fid = Some v" "trim v \<noteq> []" "Number (trim v) \<noteq> NaN"
  shows "val f fid = clamp (Num (Number (trim v))) (Finite 0) (Finite 100)"
proof -
  have "fid \<noteq> ''rank_percentile''" using assms(1) rank_not_grade by auto
  then show ?thesis using assms grade_is_numeric[OF assms(1)] by (simp add: val_def Let_def)
qed

lemma val_rank:
  assumes "f ''rank_percentile'' = Some v" "trim v \<noteq> []" "Number (trim v) \<noteq> NaN"
  shows "val f ''rank_percentile'' =
     clamp (Num (Math_round (Num (Number (trim v))))) (Finite 1) (Finite 100)"
  using assms rank_not_grade rank_is_numeric by (simp add: val_def Let_def)

lemma val_not_number:
  assumes "f fid = Some v" "trim v \<noteq> []" "Number (trim v) = NaN"
  shows "val f fid = Str (trim v)"
  using assms by (simp add: val_def)

lemma Math_round_number:
  "Math_round (Num n) = (case n of Finite x \<Rightarrow> Finite (of_int \<lfloor>x + 1 / 2\<rfloor>) | m \<Rightarrow> m)"
  by (simp add: Math_round_def ToNumber_def)

text \<open>
  C7. \<open>val\<close> yields \<open>undefined\<close> for an input that is empty or only white space. On a grade
  field a numeric input is clamped to [0,100]: a finite number \<open>x\<close> gives
  \<open>max 0 (min 100 x)\<close>, \<open>Infinity\<close> gives 100 and \<open>-Infinity\<close> gives 0; so \<open>"105"\<close> reads as
  100 and \<open>"-5"\<close> as 0. On \<open>rank_percentile\<close> it is rounded to the nearest integer and
  clamped to [1,100]; so \<open>"150"\<close> reads as 100 and \<open>"0.4"\<close> as 1. \<open>val\<close> is a function
  of the form alone and returns only the value read: it has no state to change.
\<close>

theorem val_reads_and_clamps:
  "(trim v0 = [] \<longrightarrow> val (f(fid \<mapsto> v0)) fid = Undefined)
   \<and> (fid \<in> set GRADE_FIELDS \<and> trim v \<noteq> [] \<longrightarrow>
        (Number (trim v) = Finite x \<longrightarrow>
           val (f(fid \<mapsto> v)) fid = Num (Finite (max 0 (min 100 x))))
      \<and> (Number (trim v) = Infinity \<longrightarrow> val (f(fid \<mapsto> v)) fid = Num (Finite 100))
      \<and> (Number (trim v) = NegInfinity \<longrightarrow> val (f(fid \<mapsto> v)) fid = Num (Finite 0)))
   \<and> (trim w \<noteq> [] \<longrightarrow>
        (Number (trim w) = Finite y \<longrightarrow>
           val (f(''rank_percentile'' \<mapsto> w)) ''rank_percentile'' =
             Num (Finite (of_int (max 1 (min 100 \<lfloor>y + 1 / 2\<rfloor>)))))
      \<and> (Number (trim w) = Infinity \<longrightarrow>
           val (f(''rank_percentile'' \<mapsto> w)) ''rank_percentile'' = Num (Finite 100))
      \<and> (Number (trim w) = NegInfinity \<longrightarrow>
           val (f(''rank_percentile'' \<mapsto> w)) ''rank_percentile'' = Num (Finite 1)))
   \<and> (fid \<in> set GRADE_FIELDS \<longrightarrow>
        val (f(fid \<mapsto> ''105'')) fid = Num (Finite 100)
      \<and> val (f(fid \<mapsto> ''-5'')) fid = Num (Finite 0))
   \<and> val (f(''rank_percentile'' \<mapsto> ''150'')) ''rank_percentile'' = Num (Finite 100)
   \<and> val (f(''rank_percentile'' \<mapsto> ''0.4'')) ''rank_percentile'' = Num (Finite 1)"
proof -
  have blank: "trim v0 = [] \<longrightarrow> val (f(fid \<mapsto> v0)) fid = Undefined"
    by (simp add: val_blank)
  have grade: "val (f(fid \<mapsto> u)) fid = clamp (Num (Number (trim u))) (Finite 0) (Finite 100)"
    if "fid \<in> set GRADE_FIELDS" "trim u \<noteq> []" "Number (trim u) \<noteq> NaN" for u
    using that by (intro val_grade) simp_all
  have rank: "val (f(''rank_percentile'' \<mapsto> u)) ''rank_percentile'' =
      clamp (Num (Math_round (Num (Number (trim u))))) (Finite 1) (Finite 100)"
    if "trim u \<noteq> []" "Number (trim u) \<noteq> NaN" for u
    using that by (intro val_rank) simp_all
  have t105: "trim ''105'' = ''105''" and n105: "Number ''105'' = Finite 105"
    and tm5: "trim ''-5'' = ''-5''" and nm5: "Number ''-5'' = Finite (- 5)"
    and t150: "trim ''150'' = ''150''" and n150: "Number ''150'' = Finite 150"
    and t04: "trim ''0.4'' = ''0.4''" and n04: "Number ''0.4'' = Finite (2 / 5)"
    by code_simp+
  have fl: "\<lfloor>(2 / 5 + 1 / 2 :: rat)\<rfloor> = 0" by code_simp
  have c1: "fid \<in> set GRADE_FIELDS \<and> trim v \<noteq> [] \<longrightarrow>
        (Number (trim v) = Finite x \<longrightarrow>
           val (f(fid \<mapsto> v)) fid = Num (Finite (max 0 (min 100 x))))
      \<and> (Number (trim v) = Infinity \<longrightarrow> val (f(fid \<mapsto> v)) fid = Num (Finite 100))
      \<and> (Number (trim v) = NegInfinity \<longrightarrow> val (f(fid \<mapsto> v)) fid = Num (Finite 0))"
    by (simp add: grade clamp_number)
  have c2: "trim w \<noteq> [] \<longrightarrow>
        (Number (trim w) = Finite y \<longrightarrow>
           val (f(''rank_percentile'' \<mapsto> w)) ''rank_percentile'' =
             Num (Finite (of_int (max 1 (min 100 \<lfloor>y + 1 / 2\<rfloor>)))))
      \<and> (Number (trim w) = Infinity \<longrightarrow>
           val (f(''rank_percentile'' \<mapsto> w)) ''rank_percentile'' = Num (Finite 100))
      \<and> (Number (trim w) = NegInfinity \<longrightarrow>
           val (f(''rank_percentile'' \<mapsto> w)) ''rank_percentile'' = Num (Finite 1))"
    by (auto simp: rank clamp_number Math_round_number max_def min_def)
  have c3: "fid \<in> set GRADE_FIELDS \<longrightarrow>
        val (f(fid \<mapsto> ''105'')) fid = Num (Finite 100)
      \<and> val (f(fid \<mapsto> ''-5'')) fid = Num (Finite 0)"
    by (simp add: grade clamp_number t105 n105 tm5 nm5)
  have c4: "val (f(''rank_percentile'' \<mapsto> ''150'')) ''rank_percentile'' = Num (Finite 100)"
    by (simp add: rank clamp_number Math_round_number t150 n150)
  have c5: "val (f(''rank_percentile'' \<mapsto> ''0.4'')) ''rank_percentile'' = Num (Finite 1)"
    by (simp add: rank clamp_number Math_round_number t04 n04 fl)
  from blank c1 c2 c3 c4 c5 show ?thesis by blast
qed

theorem val_reads_and_clamps_witness:
  "val (Map.empty(''math'' \<mapsto> ''   '')) ''math'' = Undefined
   \<and> val (Map.empty(''math'' \<mapsto> '' 42.5 '')) ''math'' = Num (Finite (85 / 2))
   \<and> val (Map.empty(''rank_percentile'' \<mapsto> ''7.5'')) ''rank_percentile'' = Num (Finite 8)
   \<and> val (Map.empty(''math'' \<mapsto> ''105'')) ''math'' = Num (Finite 100)"
proof -
  have h0: "trim ''   '' = []" by code_simp
  have h1: "''math'' \<in> set GRADE_FIELDS" by (simp add: GRADE_FIELDS_def)
  have h2: "trim '' 42.5 '' \<noteq> []" by code_simp
  have h3: "Number (trim '' 42.5 '') = Finite (85 / 2)" by code_simp
  have h4: "trim ''7.5'' \<noteq> []" by code_simp
  have h5: "Number (trim ''7.5'') = Finite (15 / 2)" by code_simp
  from val_reads_and_clamps [of "''   ''" Map.empty "''math''" "'' 42.5 ''" "85 / 2" "''7.5''" "15 / 2"]
    h0 h1 h2 h3 h4 h5
  show ?thesis by simp
qed

lemma typeof_number_iff: "typeof v = ''number'' \<longleftrightarrow> (\<exists>n. v = Num n)"
  by (cases v) (simp_all add: typeof_def)

lemma clamp_is_number: "n \<noteq> NaN \<Longrightarrow> \<exists>m. clamp (Num n) (Finite lo) (Finite hi) = Num m"
  by (simp add: clamp_def)

lemma val_number_iff:
  assumes "fid \<in> set NUMERIC_FIELDS"
  shows "(\<exists>n. val f fid = Num n) \<longleftrightarrow>
         (\<exists>v. f fid = Some v \<and> trim v \<noteq> [] \<and> Number (trim v) \<noteq> NaN)"
proof (cases "f fid")
  case None
  then show ?thesis by (simp add: val_def)
next
  case (Some v)
  show ?thesis
  proof (cases "trim v = [] \<or> Number (trim v) = NaN")
    case True
    then show ?thesis using Some by (auto simp: val_def Let_def)
  next
    case False
    then have ne: "trim v \<noteq> []" and num: "Number (trim v) \<noteq> NaN" by auto
    from assms have "fid \<in> set GRADE_FIELDS \<or> fid = ''rank_percentile''"
      by (auto simp: NUMERIC_FIELDS_def)
    then have "\<exists>n. val f fid = Num n"
    proof
      assume g: "fid \<in> set GRADE_FIELDS"
      have "val f fid = clamp (Num (Number (trim v))) (Finite 0) (Finite 100)"
        using g Some ne num by (rule val_grade)
      with num show ?thesis
        by (cases "Number (trim v)") (simp_all add: clamp_number)
    next
      assume r: "fid = ''rank_percentile''"
      have "val f ''rank_percentile'' =
          clamp (Num (Math_round (Num (Number (trim v))))) (Finite 1) (Finite 100)"
        using Some [unfolded r] ne num by (rule val_rank)
      with num show ?thesis
        unfolding r by (cases "Number (trim v)") (simp_all add: clamp_number Math_round_number)
    qed
    then show ?thesis using Some False by simp
  qed
qed

lemma first_five_numeric: "k \<in> set (take 5 GRADE_FIELDS) \<Longrightarrow> k \<in> set NUMERIC_FIELDS"
  by (auto simp: GRADE_FIELDS_def NUMERIC_FIELDS_def)

text \<open>
  C10. On each of the fourteen numeric fields, an input that is not blank and that
  \<open>Number\<close> does not parse is returned as its trimmed text, neither \<open>undefined\<close> nor a
  clamped number. \<open>atLeastOneGradeFilled\<close> holds exactly when one of \<open>s1\<close>..\<open>s5\<close> holds
  an input that is not blank and parses as a number, so such a text does not count.
\<close>

theorem non_numeric_text_is_kept:
  "(fid \<in> set NUMERIC_FIELDS \<and> trim v \<noteq> [] \<and> Number (trim v) = NaN \<longrightarrow>
      val (f(fid \<mapsto> v)) fid = Str (trim v))
   \<and> (atLeastOneGradeFilled g \<longleftrightarrow>
        (\<exists>k \<in> set [''s1'', ''s2'', ''s3'', ''s4'', ''s5''].
           \<exists>w. g k = Some w \<and> trim w \<noteq> [] \<and> Number (trim w) \<noteq> NaN))"
proof -
  have a: "fid \<in> set NUMERIC_FIELDS \<and> trim v \<noteq> [] \<and> Number (trim v) = NaN \<longrightarrow>
      val (f(fid \<mapsto> v)) fid = Str (trim v)"
    by (simp add: val_not_number)
  have five: "take 5 GRADE_FIELDS = [''s1'', ''s2'', ''s3'', ''s4'', ''s5'']"
    by (simp add: GRADE_FIELDS_def)
  have "atLeastOneGradeFilled g \<longleftrightarrow> (\<exists>k \<in> set (take 5 GRADE_FIELDS). \<exists>n. val g k = Num n)"
    by (simp add: atLeastOneGradeFilled_def list_ex_iff typeof_number_iff)
  also have "\<dots> \<longleftrightarrow> (\<exists>k \<in> set (take 5 GRADE_FIELDS).
           \<exists>w. g k = Some w \<and> trim w \<noteq> [] \<and> Number (trim w) \<noteq> NaN)"
    using val_number_iff [OF first_five_numeric] by blast
  finally have b: "atLeastOneGradeFilled g \<longleftrightarrow>
        (\<exists>k \<in> set [''s1'', ''s2'', ''s3'', ''s4'', ''s5''].
           \<exists>w. g k = Some w \<and> trim w \<noteq> [] \<and> Number (trim w) \<noteq> NaN)"
    unfolding five .
  from a b show ?thesis by blast
qed

theorem non_numeric_text_is_kept_witness:
  "val (Map.empty(''s1'' \<mapsto> '' 8o '')) ''s1'' = Str ''8o''
   \<and> \<not> atLeastOneGradeFilled (Map.empty(''s1'' \<mapsto> '' 8o ''))"
proof -
  have h1: "''s1'' \<in> set NUMERIC_FIELDS" by (simp add: NUMERIC_FIELDS_def GRADE_FIELDS_def)
  have h2: "trim '' 8o '' = ''8o''" by code_simp
  have h3: "Number ''8o'' = NaN" by code_simp
  from non_numeric_text_is_kept [of "''s1''" "'' 8o ''" Map.empty "Map.empty(''s1'' \<mapsto> '' 8o '')"]
    h1 h2 h3
  show ?thesis by simp
qed

section \<open>Properties of the selection store\<close>

subsection \<open>What the operations do to a selector\<close>

lemma assign_apply [simp]:
  "assign S k ty s k' ty' = (if k' = k \<and> ty' = ty then s else S k' ty')"
  by (simp add: assign_def)

lemma setMajorDisabled_apply:
  "setMajorDisabled S k d k' ty' =
     (if k' = k \<and> ty' = Major then (S k Major)\<lparr>disabled := d\<rparr> else S k' ty')"
  by (simp add: setMajorDisabled_def)

lemma clearOne_apply:
  "clearOne S k ty k' ty' =
     (if k' = k \<and> ty' = ty
      then (S k ty)\<lparr>selected := None, input_value := [], dropdown_hidden := True\<rparr>
      else S k' ty')"
  by (simp add: clearOne_def)

lemma selected_clearSelection:
  "selected (clearSelection S k ty k' ty') =
     (if k' = k \<and> (ty' = ty \<or> ty = University) then None else selected (S k' ty'))"
  by (cases ty; cases ty') (simp_all add: clearSelection_def Let_def clearOne_apply setMajorDisabled_apply)

lemma disabled_clearSelection:
  "disabled (clearSelection S k ty k' Major) =
     (if k' = k \<and> ty = University then True else disabled (S k' Major))"
  by (cases ty) (simp_all add: clearSelection_def Let_def clearOne_apply setMajorDisabled_apply)

lemma selected_selectItem:
  "selected (selectItem S k ty item k' ty') =
     (if k' = k then (if ty' = ty then Some item
                      else if ty = University then None else selected (S k' ty'))
      else selected (S k' ty'))"
  by (cases ty; cases ty')
     (simp_all add: selectItem_def Let_def selected_clearSelection setMajorDisabled_apply)

lemma disabled_selectItem:
  "disabled (selectItem S k ty item k' Major) =
     (if k' = k \<and> ty = University then False else disabled (S k' Major))"
  by (cases ty)
     (simp_all add: selectItem_def Let_def disabled_clearSelection setMajorDisabled_apply)

lemma selected_resetSelections: "selected (resetSelections S k ty) = None"
  by (cases k; cases ty)
     (simp_all add: resetSelections_def Object_keys_def selected_clearSelection setMajorDisabled_apply)

lemma disabled_resetSelections: "disabled (resetSelections S k Major)"
  by (cases k)
     (simp_all add: resetSelections_def Object_keys_def disabled_clearSelection setMajorDisabled_apply)

lemma choiceKey_all: "(\<forall>k. P k) \<longleftrightarrow> P choice1 \<and> P choice2 \<and> P choice3"
proof
  assume "P choice1 \<and> P choice2 \<and> P choice3"
  then show "\<forall>k. P k" by (intro allI) (case_tac k, simp_all)
qed simp

lemma choiceKey_ex: "(\<exists>k. P k) \<longleftrightarrow> P choice1 \<or> P choice2 \<or> P choice3"
proof
  assume "\<exists>k. P k"
  then obtain k where "P k" ..
  then show "P choice1 \<or> P choice2 \<or> P choice3" by (cases k) simp_all
qed auto

lemma getSelectedUniversities_eq:
  "getSelectedUniversities S = concat (map (slotValue S University) [choice1, choice2, choice3])"
  by (simp add: getSelectedUniversities_def Object_keys_def slotValue_def split: option.splits)

lemma getSelectedMajors_eq:
  "getSelectedMajors S = concat (map (slotValue S Major) [choice1, choice2, choice3])"
  by (simp add: getSelectedMajors_def Object_keys_def slotValue_def split: option.splits)

lemma set_slotValue: "v \<in> set (slotValue S ty key) \<longleftrightarrow> selected (S key ty) = Some v \<and> v \<noteq> []"
  by (cases "selected (S key ty)") (auto simp: slotValue_def)

lemma distinct_slotValue [simp]: "distinct (slotValue S ty key)"
  by (simp add: slotValue_def split: option.splits)

lemma distinct_slots_iff:
  "distinct (concat (map (slotValue S ty) [choice1, choice2, choice3])) \<longleftrightarrow> unique S ty"
proof -
  have "distinct (concat (map (slotValue S ty) [choice1, choice2, choice3])) \<longleftrightarrow>
        set (slotValue S ty choice1) \<inter> set (slotValue S ty choice2) = {}
      \<and> set (slotValue S ty choice1) \<inter> set (slotValue S ty choice3) = {}
      \<and> set (slotValue S ty choice2) \<inter> set (slotValue S ty choice3) = {}"
    by auto
  also have "\<dots> \<longleftrightarrow> unique S ty"
    unfolding unique_def choiceKey_all disjoint_iff set_slotValue by auto
  finally show ?thesis .
qed

lemma alreadySelected_universities:
  "foldl (\<lambda>acc key.
      case selected (S key University) of
        None \<Rightarrow> acc
      | Some u \<Rightarrow> if key \<noteq> currentKey \<and> u \<noteq> [] then insert u acc else acc)
     {} Object_keys = selectedElsewhere S currentKey University"
  unfolding selectedElsewhere_def choiceKey_ex Object_keys_def
  by (cases currentKey) (auto split: option.splits)

lemma alreadySelected_majors:
  "foldl (\<lambda>acc key.
      case selected (S key Major) of
        None \<Rightarrow> acc
      | Some m \<Rightarrow> if key \<noteq> choiceKey \<and> m \<noteq> [] then insert m acc else acc)
     {} Object_keys = selectedElsewhere S choiceKey Major"
  unfolding selectedElsewhere_def choiceKey_ex Object_keys_def
  by (cases choiceKey) (auto split: option.splits)

lemma getAvailableUniversities_eq:
  "getAvailableUniversities K S k =
     filter (\<lambda>u. u \<notin> selectedElsewhere S k University) (universities K)"
  by (simp add: getAvailableUniversities_def alreadySelected_universities)

lemma getAvailableMajorsForChoice_eq:
  "getAvailableMajorsForChoice K S k =
     (case selected (S k University) of
        None \<Rightarrow> []
      | Some u \<Rightarrow>
          if u = [] then []
          else filter (\<lambda>m. details K (u @ '' | '' @ m) \<noteq> None
                           \<and> m \<notin> selectedElsewhere S k Major) (majors K))"
  by (auto simp: getAvailableMajorsForChoice_def alreadySelected_majors nonEmpty_def
        getMajorsForUniversity_def Let_def split: option.splits intro: filter_cong)

lemma offered_not_elsewhere:
  "item \<in> set (availableFor K S k ty) \<Longrightarrow> item \<notin> selectedElsewhere S k ty"
  by (cases ty)
     (auto simp: availableFor_def getAvailableUniversities_eq getAvailableMajorsForChoice_eq
        split: option.splits if_splits)

lemma not_elsewhere_iff:
  "item \<notin> selectedElsewhere S k ty \<longleftrightarrow>
     (\<forall>k'. k' \<noteq> k \<longrightarrow> item = [] \<or> selected (S k' ty) \<noteq> Some item)"
  by (auto simp: selectedElsewhere_def)

lemma unique_initial: "unique SELECTION_PAIRS ty"
  by (simp add: unique_def SELECTION_PAIRS_def)

lemma unique_selectItem:
  assumes "unique S ty'" and "item \<notin> selectedElsewhere S k ty"
  shows "unique (selectItem S k ty item) ty'"
  using assms unfolding unique_def not_elsewhere_iff selected_selectItem
  by (auto split: if_splits)

lemma unique_clearSelection: "unique S ty' \<Longrightarrow> unique (clearSelection S k ty) ty'"
  unfolding unique_def selected_clearSelection by (auto split: if_splits)

lemma unique_resetSelections: "unique (resetSelections S) ty"
  by (simp add: unique_def selected_resetSelections)

lemma reachable_unique: "reachable pick S \<Longrightarrow> unique S ty"
proof (induction rule: reachable.induct)
  case initial
  show ?case by (rule unique_initial)
next
  case (select S item K choiceKey ty')
  from select.hyps(2) have "item \<notin> selectedElsewhere S choiceKey ty'"
    by (rule offered_not_elsewhere)
  with select.IH show ?case by (rule unique_selectItem)
next
  case (clear S choiceKey ty')
  then show ?case by (simp add: unique_clearSelection)
next
  case (reset S)
  show ?case by (rule unique_resetSelections)
qed


lemma demoStore_reachable: "reachable pick0 demoStore" if "\<And>v. pick0 v"
proof -
  let ?S1 = "selectItem SELECTION_PAIRS choice1 University ''UI''"
  let ?S2 = "selectItem ?S1 choice1 Major ''Fisika''"
  have a1: "''UI'' \<in> set (availableFor demoKB SELECTION_PAIRS choice1 University)"
    by code_simp
  have a2: "''Fisika'' \<in> set (availableFor demoKB ?S1 choice1 Major)"
    by code_simp
  have a3: "''ITB'' \<in> set (availableFor demoKB ?S2 choice3 University)"
    by code_simp
  have "reachable pick0 ?S1"
    using reachable.initial a1 that by (rule reachable.select)
  then have "reachable pick0 ?S2"
    using a2 that by (rule reachable.select)
  then have "reachable pick0 (selectItem ?S2 choice3 University ''ITB'')"
    using a3 that by (rule reachable.select)
  then show ?thesis by (simp add: demoStore_def)
qed


text \<open>
  C1. In every store reached from the initial one by selecting offered items, clearing and
  resetting, the universities selected in the three slots are pairwise distinct, and so
  are the majors.
\<close>

theorem selections_pairwise_distinct:
  assumes "reachable anyItem S"
  shows "distinct (getSelectedUniversities S) \<and> distinct (getSelectedMajors S)"
  unfolding getSelectedUniversities_eq getSelectedMajors_eq distinct_slots_iff
  using reachable_unique [OF assms] by blast

theorem selections_pairwise_distinct_witness:
  "reachable anyItem demoStore
   \<and> getSelectedUniversities demoStore = [''UI'', ''ITB'']
   \<and> getSelectedMajors demoStore = [''Fisika'']
   \<and> distinct (getSelectedUniversities demoStore) \<and> distinct (getSelectedMajors demoStore)"
proof -
  have r: "reachable anyItem demoStore" by (rule demoStore_reachable) (simp add: anyItem_def)
  have u: "getSelectedUniversities demoStore = [''UI'', ''ITB'']" by code_simp
  have m: "getSelectedMajors demoStore = [''Fisika'']" by code_simp
  from selections_pairwise_distinct [OF r] r u m show ?thesis by blast
qed

section \<open>Enabling of the major selector\<close>

lemma reachable_paired:
  "reachable pick S \<Longrightarrow>
     (disabled (S k Major) \<longleftrightarrow> selected (S k University) = None)
   \<and> (selected (S k University) = None \<longrightarrow> selected (S k Major) = None)"
proof (induction arbitrary: k rule: reachable.induct)
  case initial
  show ?case by (simp add: SELECTION_PAIRS_def)
next
  case (select S item K choiceKey ty)
  show ?case
  proof (cases ty)
    case University
    with select.IH [of k] show ?thesis
      by (simp add: selected_selectItem disabled_selectItem)
  next
    case Major
    with select.hyps(2) have "\<not> disabled (S choiceKey Major)"
      by (auto simp: availableFor_def split: if_splits)
    with select.IH [of choiceKey] select.IH [of k] Major show ?thesis
      by (auto simp: selected_selectItem disabled_selectItem)
  qed
next
  case (clear S choiceKey ty)
  from clear.IH [of k] show ?case
    by (cases ty) (auto simp: selected_clearSelection disabled_clearSelection)
next
  case (reset S)
  show ?case by (simp add: selected_resetSelections disabled_resetSelections)
qed

lemma reachable_university_not_blank:
  "reachable nonBlank S \<Longrightarrow> selected (S k University) \<noteq> Some []"
proof (induction arbitrary: k rule: reachable.induct)
  case initial
  show ?case by (simp add: SELECTION_PAIRS_def)
next
  case (select S item K choiceKey ty)
  from select.IH [of k] select.hyps(3) show ?case
    by (cases ty) (auto simp: selected_selectItem nonBlank_def)
next
  case (clear S choiceKey ty)
  from clear.IH [of k] show ?case
    by (auto simp: selected_clearSelection)
next
  case (reset S)
  show ?case by (simp add: selected_resetSelections)
qed

text \<open>
  C3, as amended. In every store reached from the initial one by clearing, resetting and
  selecting offered items that are not the empty string, each slot's major selector is
  enabled exactly when the slot's university selector holds a non-empty value, and while
  the university is empty the major has no selected value.
\<close>

theorem major_enabled_iff_university_selected:
  assumes "reachable nonBlank S"
  shows "(\<not> disabled (S k Major) \<longleftrightarrow> nonEmpty (selected (S k University)))
       \<and> (\<not> nonEmpty (selected (S k University)) \<longrightarrow> selected (S k Major) = None)"
  using reachable_paired [OF assms, of k] reachable_university_not_blank [OF assms, of k]
  by (cases "selected (S k University)") (auto simp: nonEmpty_def)

theorem major_enabled_iff_university_selected_witness:
  "reachable nonBlank demoStore
   \<and> \<not> disabled (demoStore choice3 Major) \<and> selected (demoStore choice3 University) = Some ''ITB''
   \<and> disabled (demoStore choice2 Major) \<and> selected (demoStore choice2 University) = None
   \<and> selected (demoStore choice2 Major) = None"
proof -
  have r: "reachable nonBlank demoStore"
  proof -
    let ?S1 = "selectItem SELECTION_PAIRS choice1 University ''UI''"
    let ?S2 = "selectItem ?S1 choice1 Major ''Fisika''"
    have a1: "''UI'' \<in> set (availableFor demoKB SELECTION_PAIRS choice1 University)"
      by code_simp
    have a2: "''Fisika'' \<in> set (availableFor demoKB ?S1 choice1 Major)"
      by code_simp
    have a3: "''ITB'' \<in> set (availableFor demoKB ?S2 choice3 University)"
      by code_simp
    have "reachable nonBlank ?S1"
      using reachable.initial a1 by (rule reachable.select) (simp add: nonBlank_def)
    then have "reachable nonBlank ?S2"
      using a2 by (rule reachable.select) (simp add: nonBlank_def)
    then have "reachable nonBlank (selectItem ?S2 choice3 University ''ITB'')"
      using a3 by (rule reachable.select) (simp add: nonBlank_def)
    then show ?thesis by (simp add: demoStore_def)
  qed
  have u3: "selected (demoStore choice3 University) = Some ''ITB''" by code_simp
  have u2: "selected (demoStore choice2 University) = None" by code_simp
  from major_enabled_iff_university_selected [OF r, of choice3]
       major_enabled_iff_university_selected [OF r, of choice2] r u3 u2
  show ?thesis by (simp add: nonEmpty_def)
qed

text \<open>
  The restrictions on \<open>select\<close> are needed. \<open>selectItem\<close> does not check its item:
  selecting a major in the initial store leaves a major selected beside an empty
  university. And when the knowledge base lists the empty string as a university, that
  item is offered, and selecting it enables the major selector while the university
  selector still counts as empty.
\<close>

theorem major_enabled_iff_university_selected_counterexample:
  "\<not> nonEmpty (selected (selectItem SELECTION_PAIRS choice1 Major ''Fisika'' choice1 University))
   \<and> selected (selectItem SELECTION_PAIRS choice1 Major ''Fisika'' choice1 Major) = Some ''Fisika''
   \<and> '''' \<in> set (availableFor blankKB SELECTION_PAIRS choice1 University)
   \<and> reachable anyItem blankStore
   \<and> \<not> disabled (blankStore choice1 Major)
   \<and> \<not> nonEmpty (selected (blankStore choice1 University))"
proof -
  have a: "'''' \<in> set (availableFor blankKB SELECTION_PAIRS choice1 University)"
    by code_simp
  have "reachable anyItem (selectItem SELECTION_PAIRS choice1 University '''')"
    using reachable.initial a by (rule reachable.select) (simp add: anyItem_def)
  then have r: "reachable anyItem blankStore" by (simp add: blankStore_def)
  have b: "\<not> nonEmpty (selected (selectItem SELECTION_PAIRS choice1 Major ''Fisika'' choice1 University))"
    by code_simp
  have c: "selected (selectItem SELECTION_PAIRS choice1 Major ''Fisika'' choice1 Major) = Some ''Fisika''"
    by code_simp
  have d: "\<not> disabled (blankStore choice1 Major)" by code_simp
  have e: "\<not> nonEmpty (selected (blankStore choice1 University))" by code_simp
  from a r b c d e show ?thesis by blast
qed

section \<open>Selecting, clearing and the offered items\<close>

text \<open>
  C4. For every store, slot and item, selecting a university sets the slot's university
  to the item, clears the slot's major and leaves the major selector enabled; clearing
  the university empties both selections and disables the major selector.
\<close>

theorem select_and_clear_university:
  "selected (selectItem S k University v k University) = Some v
   \<and> selected (selectItem S k University v k Major) = None
   \<and> \<not> disabled (selectItem S k University v k Major)
   \<and> selected (clearSelection S k University k University) = None
   \<and> selected (clearSelection S k University k Major) = None
   \<and> disabled (clearSelection S k University k Major)"
  by (simp add: selected_selectItem disabled_selectItem selected_clearSelection
        disabled_clearSelection)

theorem select_and_clear_university_witness:
  "selected (demoStore choice1 Major) = Some ''Fisika''
   \<and> selected (selectItem demoStore choice1 University ''UGM'' choice1 University) = Some ''UGM''
   \<and> selected (selectItem demoStore choice1 University ''UGM'' choice1 Major) = None
   \<and> \<not> disabled (selectItem demoStore choice1 University ''UGM'' choice1 Major)
   \<and> selected (clearSelection demoStore choice1 University choice1 University) = None
   \<and> selected (clearSelection demoStore choice1 University choice1 Major) = None
   \<and> disabled (clearSelection demoStore choice1 University choice1 Major)"
proof -
  have m: "selected (demoStore choice1 Major) = Some ''Fisika''" by code_simp
  from select_and_clear_university [of demoStore choice1 "''UGM''"] m
  show ?thesis by blast
qed

text \<open>
  C5, as amended. The universities offered to a slot are the knowledge base's
  universities, in order, without those selected in the other two slots. The majors
  offered to a slot are none when its major selector is disabled or its university
  selection is empty; otherwise they are the knowledge base's majors \<open>m\<close>, in order,
  whose key \<open>"university | m"\<close> has details, without those selected in the other two
  slots.
\<close>

theorem available_items:
  "availableFor K S k University =
     filter (\<lambda>u. u \<notin> selectedElsewhere S k University) (universities K)
   \<and> availableFor K S k Major =
       (case selected (S k University) of
          None \<Rightarrow> []
        | Some u \<Rightarrow>
            if disabled (S k Major) \<or> u = [] then []
            else filter (\<lambda>m. details K (u @ '' | '' @ m) \<noteq> None
                             \<and> m \<notin> selectedElsewhere S k Major) (majors K))
   \<and> availableFor K S k Major =
       (if nonEmpty (selected (S k University)) then majorsByKey K S k else [])"
proof -
  have u: "availableFor K S k University =
     filter (\<lambda>u. u \<notin> selectedElsewhere S k University) (universities K)"
    by (simp add: availableFor_def getAvailableUniversities_eq)
  have m: "availableFor K S k Major =
       (if nonEmpty (selected (S k University)) then majorsByKey K S k else [])"
    by (cases "selected (S k University)")
       (simp_all add: availableFor_def getAvailableMajorsForChoice_eq majorsByKey_def nonEmpty_def)
  have m': "availableFor K S k Major =
       (case selected (S k University) of
          None \<Rightarrow> []
        | Some u \<Rightarrow>
            if disabled (S k Major) \<or> u = [] then []
            else filter (\<lambda>m. details K (u @ '' | '' @ m) \<noteq> None
                             \<and> m \<notin> selectedElsewhere S k Major) (majors K))"
    by (cases "selected (S k University)")
       (simp_all add: availableFor_def getAvailableMajorsForChoice_eq)
  from u m m' show ?thesis by blast
qed

theorem available_items_witness:
  "availableFor demoKB demoStore choice1 University = [''UI'', ''UGM'']
   \<and> [''UI'', ''UGM''] = filter (\<lambda>u. u \<notin> selectedElsewhere demoStore choice1 University)
                             (universities demoKB)
   \<and> nonEmpty (selected (demoStore choice1 University))
   \<and> availableFor demoKB demoStore choice1 Major = [''Fisika'', ''Hukum'']
   \<and> majorsByKey demoKB demoStore choice1 = [''Fisika'', ''Hukum'']
   \<and> availableFor demoKB demoStore choice2 Major = []"
proof -
  have a: "availableFor demoKB demoStore choice1 University = [''UI'', ''UGM'']" by code_simp
  have b: "nonEmpty (selected (demoStore choice1 University))" by code_simp
  have c: "availableFor demoKB demoStore choice1 Major = [''Fisika'', ''Hukum'']" by code_simp
  have d: "\<not> nonEmpty (selected (demoStore choice2 University))" by code_simp
  have x: "[''UI'', ''UGM''] = filter (\<lambda>u. u \<notin> selectedElsewhere demoStore choice1 University)
                                 (universities demoKB)"
    using available_items [of demoKB demoStore choice1, THEN conjunct1] a by simp
  have y: "majorsByKey demoKB demoStore choice1 = [''Fisika'', ''Hukum'']"
    using available_items [of demoKB demoStore choice1, THEN conjunct2, THEN conjunct2] b c
    by simp
  have z: "availableFor demoKB demoStore choice2 Major = []"
    using available_items [of demoKB demoStore choice2, THEN conjunct2, THEN conjunct2] d
    by simp
  from a b c x y z show ?thesis by blast
qed

text \<open>
  The guard on the university selection is part of the code: with the empty string
  selected as university and the major selector enabled, the knowledge base has details
  for the key \<open>" | Fisika"\<close>, yet no major is offered.
\<close>

theorem available_items_counterexample:
  "\<not> disabled (blankStore choice1 Major)
   \<and> selected (blankStore choice1 University) = Some ''''
   \<and> details blankKB ('''' @ '' | '' @ ''Fisika'') \<noteq> None
   \<and> majorsByKey blankKB blankStore choice1 = [''Fisika'']
   \<and> availableFor blankKB blankStore choice1 Major = []"
proof -
  have a: "\<not> disabled (blankStore choice1 Major)" by code_simp
  have b: "selected (blankStore choice1 University) = Some ''''" by code_simp
  have c: "details blankKB ('''' @ '' | '' @ ''Fisika'') \<noteq> None" by code_simp
  have e: "availableFor blankKB blankStore choice1 Major = []" by code_simp
  have sel: "selected (blankStore key Major) = None" for key
    by (simp add: blankStore_def selected_selectItem SELECTION_PAIRS_def)
  have "selectedElsewhere blankStore choice1 Major = {}"
    by (simp add: selectedElsewhere_def sel)
  then have d: "majorsByKey blankKB blankStore choice1 = [''Fisika'']"
    using a b c by (simp add: majorsByKey_def blankKB_def)
  from a b c d e show ?thesis by blast
qed

section \<open>Searching\<close>

text \<open>
  A disabled major selector keeps its dropdown hidden: this holds initially and every
  operation on the store preserves it.
\<close>

lemma hidden_clearSelection:
  "dropdown_hidden (clearSelection S k ty k' ty') =
     (if k' = k \<and> (ty' = ty \<or> ty = University) then True else dropdown_hidden (S k' ty'))"
  by (cases ty; cases ty') (simp_all add: clearSelection_def Let_def clearOne_apply setMajorDisabled_apply)

lemma hidden_selectItem:
  "dropdown_hidden (selectItem S k ty item k' ty') =
     (if k' = k \<and> (ty' = ty \<or> ty = University) then True else dropdown_hidden (S k' ty'))"
  by (cases ty; cases ty')
     (simp_all add: selectItem_def Let_def hidden_clearSelection setMajorDisabled_apply)

lemma hidden_resetSelections: "dropdown_hidden (resetSelections S k ty)"
  by (cases k; cases ty)
     (simp_all add: resetSelections_def Object_keys_def hidden_clearSelection setMajorDisabled_apply)

lemma quiet_initial: "quiet SELECTION_PAIRS"
  by (simp add: quiet_def SELECTION_PAIRS_def)

lemma quiet_selectItem: "quiet S \<Longrightarrow> quiet (selectItem S k ty item)"
  by (auto simp: quiet_def hidden_selectItem disabled_selectItem)

lemma quiet_clearSelection: "quiet S \<Longrightarrow> quiet (clearSelection S k ty)"
  by (auto simp: quiet_def hidden_clearSelection disabled_clearSelection)

lemma quiet_resetSelections: "quiet (resetSelections S)"
  by (simp add: quiet_def hidden_resetSelections)

lemma quiet_showAllOptions: "quiet S \<Longrightarrow> quiet (showAllOptions K S k ty)"
  by (cases ty) (auto simp: quiet_def showAllOptions_def Let_def)

lemma quiet_renderSearchResults: "quiet S \<Longrightarrow> quiet (renderSearchResults K S k ty query)"
  by (cases ty) (auto simp: quiet_def renderSearchResults_def Let_def)

lemma quiet_shows_nothing: "quiet S \<Longrightarrow> disabled (S k Major) \<Longrightarrow> shownOptions (S k Major) = []"
  by (simp add: quiet_def shownOptions_def)

lemma includes_str_iff: "includes_str s q \<longleftrightarrow> (\<exists>a b. s = a @ q @ b)"
proof (induction s)
  case Nil
  show ?case by auto
next
  case (Cons c s)
  show ?case
  proof
    assume "includes_str (c # s) q"
    then consider "prefix q (c # s)" | "includes_str s q" by auto
    then show "\<exists>a b. c # s = a @ q @ b"
    proof cases
      case 1
      then obtain b where "c # s = q @ b" by (auto simp: prefix_def)
      then have "c # s = [] @ q @ b" by simp
      then show ?thesis by blast
    next
      case 2
      with Cons.IH obtain a b where "s = a @ q @ b" by blast
      then have "c # s = (c # a) @ q @ b" by simp
      then show ?thesis by blast
    qed
  next
    assume "\<exists>a b. c # s = a @ q @ b"
    then obtain a b where ab: "c # s = a @ q @ b" by blast
    show "includes_str (c # s) q"
    proof (cases a)
      case Nil
      with ab have "prefix q (c # s)" by (simp add: prefix_def)
      then show ?thesis by simp
    next
      case (Cons c' a')
      with ab have "s = a' @ q @ b" by simp
      with Cons.IH have "includes_str s q" by blast
      then show ?thesis by simp
    qed
  qed
qed

lemma shownOptions_assign_hidden [simp]:
  "shownOptions (sel\<lparr>dropdown_hidden := True\<rparr>) = []"
  by (simp add: shownOptions_def)

text \<open>
  C6. After \<open>renderSearchResults\<close> the dropdown shows nothing for the empty query (it is
  hidden), and otherwise the first 12, in order, of the offered items whose lower-cased
  text contains the lower-cased query. A disabled major selector is left as it is; its
  dropdown shows nothing, since it is hidden whenever the selector is disabled
  (\<open>clearSelection\<close> hides it before \<open>setMajorDisabled\<close> disables it, and nothing
  renders into it while it is disabled).
\<close>

theorem search_results:
  assumes "ty = Major \<and> disabled (S k Major) \<longrightarrow> shownOptions (S k Major) = []"
  shows "shownOptions (renderSearchResults K S k ty query k ty) =
           (if query = [] then []
            else take 12 (filter (\<lambda>item. \<exists>a b. toLowerCase item = a @ toLowerCase query @ b)
                            (availableFor K S k ty)))
       \<and> (query = [] \<longrightarrow> dropdown_hidden (renderSearchResults K S k ty query k ty))
       \<and> length (shownOptions (renderSearchResults K S k ty query k ty)) \<le> 12"
proof -
  let ?hits = "take 12 (filter (\<lambda>item. includes_str (toLowerCase item) (toLowerCase query))
                          (availableFor K S k ty))"
  have shown: "shownOptions (renderSearchResults K S k ty query k ty) =
      (if query = [] then [] else ?hits)"
  proof (cases "query = []")
    case True
    then show ?thesis by (simp add: renderSearchResults_def)
  next
    case False
    show ?thesis
    proof (cases "ty = Major \<and> disabled (S k Major)")
      case True
      with assms have "shownOptions (S k Major) = []" by simp
      moreover from True have "availableFor K S k ty = []" by (simp add: availableFor_def)
      ultimately show ?thesis using True False by (simp add: renderSearchResults_def)
    next
      case False
      with \<open>query \<noteq> []\<close> show ?thesis
        by (auto simp: renderSearchResults_def Let_def shownOptions_def)
    qed
  qed
  have hidden: "query = [] \<longrightarrow> dropdown_hidden (renderSearchResults K S k ty query k ty)"
    by (simp add: renderSearchResults_def)
  from shown hidden show ?thesis by (simp add: includes_str_iff)
qed

theorem search_results_witness:
  "shownOptions (renderSearchResults demoKB demoStore choice2 University ''U'' choice2 University)
     = [''UGM'']
   \<and> shownOptions (renderSearchResults demoKB demoStore choice2 University [] choice2 University)
     = []
   \<and> disabled (demoStore choice2 Major) \<and> shownOptions (demoStore choice2 Major) = []
   \<and> shownOptions (renderSearchResults demoKB demoStore choice2 Major ''f'' choice2 Major) = []"
proof -
  have d: "disabled (demoStore choice2 Major)" by code_simp
  have h: "shownOptions (demoStore choice2 Major) = []" by code_simp
  have av: "availableFor demoKB demoStore choice2 University = [''UGM'']" by code_simp
  have hit: "includes_str (toLowerCase ''UGM'') (toLowerCase ''U'')" by code_simp
  have am: "availableFor demoKB demoStore choice2 Major = []" by code_simp
  from search_results [of University demoStore choice2 demoKB "''U''"]
  have 1: "shownOptions (renderSearchResults demoKB demoStore choice2 University ''U'' choice2 University)
     = [''UGM'']"
    using hit by (simp add: av includes_str_iff [symmetric])
  from search_results [of University demoStore choice2 demoKB "[]"]
  have 2: "shownOptions (renderSearchResults demoKB demoStore choice2 University [] choice2 University)
     = []" by simp
  from search_results [of Major demoStore choice2 demoKB "''f''"] d h
  have 3: "shownOptions (renderSearchResults demoKB demoStore choice2 Major ''f'' choice2 Major) = []"
    by (simp add: am)
  from 1 2 3 d h show ?thesis by blast
qed

section \<open>The payload\<close>

lemma firstOrUnknown_slots:
  "firstOrUnknown (concat (map (slotValue S ty) [choice1, choice2, choice3])) =
     (case concat (map (slotValue S ty) [choice1, choice2, choice3]) of
        [] \<Rightarrow> ''Unknown'' | v # rest \<Rightarrow> v)"
  by (auto simp: firstOrUnknown_def slotValue_def split: option.splits list.splits if_splits)

text \<open>
  C8. In the payload, \<open>target_universities\<close> lists the selected universities in the order
  \<open>choice1\<close>, \<open>choice2\<close>, \<open>choice3\<close>, leaving out empty slots; \<open>target_university_i\<close> is
  slot \<open>i\<close>'s selection or \<open>null\<close>; \<open>target_university\<close> is the first entry of the list,
  or \<open>"Unknown"\<close> when the list is empty; likewise for majors; and \<open>rank_percentile\<close> is
  100 when the field reads as absent. With only \<open>choice2\<close> filled, \<open>target_university\<close>
  and \<open>target_university_2\<close> are its university, \<open>target_university_1\<close> is \<open>null\<close> and
  \<open>target_universities\<close> has that one entry.
\<close>

theorem payload_targets:
  "target_universities (collectPayload S f) =
       slotValue S University choice1 @ slotValue S University choice2
         @ slotValue S University choice3
   \<and> target_majors (collectPayload S f) =
       slotValue S Major choice1 @ slotValue S Major choice2 @ slotValue S Major choice3
   \<and> target_university_1 (collectPayload S f) =
       (if nonEmpty (selected (S choice1 University)) then selected (S choice1 University) else None)
   \<and> target_university_2 (collectPayload S f) =
       (if nonEmpty (selected (S choice2 University)) then selected (S choice2 University) else None)
   \<and> target_university_3 (collectPayload S f) =
       (if nonEmpty (selected (S choice3 University)) then selected (S choice3 University) else None)
   \<and> target_major_1 (collectPayload S f) =
       (if nonEmpty (selected (S choice1 Major)) then selected (S choice1 Major) else None)
   \<and> target_major_2 (collectPayload S f) =
       (if nonEmpty (selected (S choice2 Major)) then selected (S choice2 Major) else None)
   \<and> target_major_3 (collectPayload S f) =
       (if nonEmpty (selected (S choice3 Major)) then selected (S choice3 Major) else None)
   \<and> target_university (collectPayload S f) =
       (case target_universities (collectPayload S f) of [] \<Rightarrow> ''Unknown'' | u # rest \<Rightarrow> u)
   \<and> target_major (collectPayload S f) =
       (case target_majors (collectPayload S f) of [] \<Rightarrow> ''Unknown'' | m # rest \<Rightarrow> m)
   \<and> (val f ''rank_percentile'' = Undefined \<longrightarrow>
        rank_percentile (collectPayload S f) = Num (Finite 100))
   \<and> (\<not> nonEmpty (selected (S choice1 University)) \<and> selected (S choice2 University) = Some u
        \<and> u \<noteq> [] \<and> \<not> nonEmpty (selected (S choice3 University)) \<longrightarrow>
        target_university (collectPayload S f) = u
      \<and> target_university_1 (collectPayload S f) = None
      \<and> target_university_2 (collectPayload S f) = Some u
      \<and> target_universities (collectPayload S f) = [u])"
proof -
  have us: "target_universities (collectPayload S f) =
       slotValue S University choice1 @ slotValue S University choice2
         @ slotValue S University choice3"
    by (simp add: collectPayload_def Let_def getSelectedUniversities_eq)
  have ms: "target_majors (collectPayload S f) =
       slotValue S Major choice1 @ slotValue S Major choice2 @ slotValue S Major choice3"
    by (simp add: collectPayload_def Let_def getSelectedMajors_eq)
  have pos: "target_university_1 (collectPayload S f) = orNull (selected (S choice1 University))"
    "target_university_2 (collectPayload S f) = orNull (selected (S choice2 University))"
    "target_university_3 (collectPayload S f) = orNull (selected (S choice3 University))"
    "target_major_1 (collectPayload S f) = orNull (selected (S choice1 Major))"
    "target_major_2 (collectPayload S f) = orNull (selected (S choice2 Major))"
    "target_major_3 (collectPayload S f) = orNull (selected (S choice3 Major))"
    by (simp_all add: collectPayload_def Let_def)
  have u1: "target_university (collectPayload S f) =
       (case target_universities (collectPayload S f) of [] \<Rightarrow> ''Unknown'' | u # rest \<Rightarrow> u)"
    using firstOrUnknown_slots [of S University]
    by (simp add: collectPayload_def Let_def getSelectedUniversities_eq)
  have m1: "target_major (collectPayload S f) =
       (case target_majors (collectPayload S f) of [] \<Rightarrow> ''Unknown'' | m # rest \<Rightarrow> m)"
    using firstOrUnknown_slots [of S Major]
    by (simp add: collectPayload_def Let_def getSelectedMajors_eq)
  have rk: "val f ''rank_percentile'' = Undefined \<longrightarrow>
        rank_percentile (collectPayload S f) = Num (Finite 100)"
    by (simp add: collectPayload_def Let_def orDefault_def)
  have only2: "target_university (collectPayload S f) = u
      \<and> target_university_1 (collectPayload S f) = None
      \<and> target_university_2 (collectPayload S f) = Some u
      \<and> target_universities (collectPayload S f) = [u]"
    if "\<not> nonEmpty (selected (S choice1 University))" "selected (S choice2 University) = Some u"
       "u \<noteq> []" "\<not> nonEmpty (selected (S choice3 University))"
  proof -
    from that have "slotValue S University choice1 = []" "slotValue S University choice2 = [u]"
      "slotValue S University choice3 = []"
      by (auto simp: slotValue_def nonEmpty_def split: option.splits)
    with us have l: "target_universities (collectPayload S f) = [u]" by simp
    with u1 have "target_university (collectPayload S f) = u" by simp
    with l pos that show ?thesis by (simp add: orNull_def nonEmpty_def)
  qed
  from us ms pos u1 m1 rk only2 show ?thesis unfolding orNull_def by blast
qed

theorem payload_targets_witness:
  "val Map.empty ''rank_percentile'' = Undefined
   \<and> rank_percentile (collectPayload secondOnly Map.empty) = Num (Finite 100)
   \<and> target_university (collectPayload secondOnly Map.empty) = ''ITB''
   \<and> target_university_1 (collectPayload secondOnly Map.empty) = None
   \<and> target_university_2 (collectPayload secondOnly Map.empty) = Some ''ITB''
   \<and> target_universities (collectPayload secondOnly Map.empty) = [''ITB'']
   \<and> target_major (collectPayload secondOnly Map.empty) = ''Fisika''"
proof -
  have h0: "val Map.empty ''rank_percentile'' = Undefined" by (simp add: val_missing)
  have h1: "\<not> nonEmpty (selected (secondOnly choice1 University))" by code_simp
  have h2: "selected (secondOnly choice2 University) = Some ''ITB''" by code_simp
  have h3: "\<not> nonEmpty (selected (secondOnly choice3 University))" by code_simp
  have h4: "slotValue secondOnly Major choice1 = []" by code_simp
  have h5: "slotValue secondOnly Major choice2 = [''Fisika'']" by code_simp
  note t = payload_targets [of secondOnly Map.empty "''ITB''"]
  from t have ms: "target_majors (collectPayload secondOnly Map.empty) =
      slotValue secondOnly Major choice1 @ slotValue secondOnly Major choice2
        @ slotValue secondOnly Major choice3"
    by blast
  from t have m1: "target_major (collectPayload secondOnly Map.empty) =
      (case target_majors (collectPayload secondOnly Map.empty) of
         [] \<Rightarrow> ''Unknown'' | m # rest \<Rightarrow> m)"
    by blast
  from ms m1 h4 h5 have m: "target_major (collectPayload secondOnly Map.empty) = ''Fisika''"
    by simp
  from t h0 have rk: "rank_percentile (collectPayload secondOnly Map.empty) = Num (Finite 100)"
    by blast
  from t h1 h2 h3 have only2: "target_university (collectPayload secondOnly Map.empty) = ''ITB''
      \<and> target_university_1 (collectPayload secondOnly Map.empty) = None
      \<and> target_university_2 (collectPayload secondOnly Map.empty) = Some ''ITB''
      \<and> target_universities (collectPayload secondOnly Map.empty) = [''ITB'']"
    by blast
  from h0 rk only2 m show ?thesis by blast
qed

section \<open>Validation\<close>

lemma if_append_last: "(if c then xs @ ys else xs) = xs @ (if c then ys else [])"
  by simp

lemma case_append_last:
  "(case x of None \<Rightarrow> xs | Some u \<Rightarrow> if P u then xs @ g u else xs) =
     xs @ (case x of None \<Rightarrow> [] | Some u \<Rightarrow> if P u then g u else [])"
  by (cases x) simp_all

lemma if_if_append_last:
  "(if P then (if Q then xs @ ys else xs) else xs) = xs @ (if P then (if Q then ys else []) else [])"
  by simp

lemma if_two_append_last:
  "(if P then (if B then (if A then xs @ a else xs) @ b else (if A then xs @ a else xs)) else xs) =
     xs @ (if P then (if A then a else []) @ (if B then b else []) else [])"
  by simp

lemma ToString_digits:
  "ToString (0 + 1) = ''1''" "ToString (Suc 0 + 1) = ''2''" "ToString (Suc (Suc 0) + 1) = ''3''"
  by code_simp+

lemma validateForm_eq:
  "validateForm S f =
     (if \<not> atLeastOneGradeFilled f
      then [''Please fill at least one of S1'' @ emDash @ ''S5 grades''] else [])
   @ (if getSelectedUniversities S = []
      then [''Please select at least one target university''] else [])
   @ (if getSelectedMajors S = []
      then [''Please select at least one target major''] else [])
   @ missingMajor S choice1 @ missingMajor S choice2 @ missingMajor S choice3
   @ (if val f ''program'' = Str ''saintek'' \<and> getSelectedMajors S \<noteq> [] then
        (if \<not> truthy (val f ''math'')
         then [''Math grade is highly recommended for Saintek program''] else [])
        @ (if \<not> truthy (val f ''physics'') \<and> \<not> truthy (val f ''chemistry'')
              \<and> \<not> truthy (val f ''biology'')
           then [''At least one science subject (Physics/Chemistry/Biology) is recommended'']
           else [])
      else [])
   @ (if val f ''program'' = Str ''soshum'' \<and> getSelectedMajors S \<noteq> [] then
        (if \<not> truthy (val f ''language'')
         then [''Language grade is highly recommended for Soshum program''] else [])
      else [])"
  unfolding validateForm_def Let_def Object_keys_def missingMajor_def slotNumber_def
  apply (simp add: if_append_last if_if_append_last if_two_append_last case_append_last
        del: One_nat_def add_0 plus_nat.add_0 add_Suc split del: if_split)
  apply (simp add: ToString_digits del: One_nat_def add_0 plus_nat.add_0 add_Suc
        split del: if_split cong: option.case_cong if_cong)
  done

lemma missingMajor_issue:
  "selected (S key University) = Some u \<Longrightarrow> u \<noteq> [] \<Longrightarrow> \<not> nonEmpty (selected (S key Major))
   \<Longrightarrow> (''Please select a major for Choice '' @ slotNumber key @ '' ('' @ u @ '')'')
         \<in> set (missingMajor S key)"
  by (simp add: missingMajor_def)

lemma missingMajor_in_issues:
  "m \<in> set (missingMajor S key) \<Longrightarrow> m \<in> set (validateForm S f)"
  by (cases key) (simp_all add: validateForm_eq)

lemma click_with_issues:
  assumes "validateForm (pairs pg) (inputs pg) \<noteq> []"
  shows "predictBtn_click pr rr pg =
           pg\<lparr>result := \<lparr>main = ErrorItems (validateForm (pairs pg) (inputs pg)), tables = []\<rparr>\<rparr>"
  using assms by (simp add: predictBtn_click_def Let_def renderResult_def)

text \<open>
  C9. When \<open>validateForm\<close> returns issues, the click on the predict button replaces the
  result area by the list of exactly these issues, sends no request, and leaves the
  selection store and the form as they were. Each rule contributes its issue whenever
  its own condition holds, whatever the other rules find: no grade among \<open>s1\<close>..\<open>s5\<close>, no
  university, no major, a slot with a university and no major, and the recommendations
  for the chosen programme. For the recommendations a grade counts as missing when
  \<open>val\<close> reads it as a falsy value, which is the test the code makes.
\<close>

theorem validation_blocks_submission:
  "(validateForm (pairs pg) (inputs pg) \<noteq> [] \<longrightarrow>
      result (predictBtn_click pr rr pg) =
        \<lparr>main = ErrorItems (validateForm (pairs pg) (inputs pg)), tables = []\<rparr>
    \<and> requests (predictBtn_click pr rr pg) = requests pg
    \<and> pairs (predictBtn_click pr rr pg) = pairs pg
    \<and> inputs (predictBtn_click pr rr pg) = inputs pg)
   \<and> (\<not> atLeastOneGradeFilled f \<longrightarrow>
        (''Please fill at least one of S1'' @ emDash @ ''S5 grades'') \<in> set (validateForm S f))
   \<and> (getSelectedUniversities S = [] \<longrightarrow>
        ''Please select at least one target university'' \<in> set (validateForm S f))
   \<and> (getSelectedMajors S = [] \<longrightarrow>
        ''Please select at least one target major'' \<in> set (validateForm S f))
   \<and> (selected (S key University) = Some u \<and> u \<noteq> [] \<and> \<not> nonEmpty (selected (S key Major)) \<longrightarrow>
        (''Please select a major for Choice '' @ slotNumber key @ '' ('' @ u @ '')'')
          \<in> set (validateForm S f))
   \<and> (val f ''program'' = Str ''saintek'' \<and> getSelectedMajors S \<noteq> []
        \<and> \<not> truthy (val f ''math'') \<longrightarrow>
        ''Math grade is highly recommended for Saintek program'' \<in> set (validateForm S f))
   \<and> (val f ''program'' = Str ''saintek'' \<and> getSelectedMajors S \<noteq> []
        \<and> \<not> truthy (val f ''physics'') \<and> \<not> truthy (val f ''chemistry'')
        \<and> \<not> truthy (val f ''biology'') \<longrightarrow>
        ''At least one science subject (Physics/Chemistry/Biology) is recommended''
          \<in> set (validateForm S f))
   \<and> (val f ''program'' = Str ''soshum'' \<and> getSelectedMajors S \<noteq> []
        \<and> \<not> truthy (val f ''language'') \<longrightarrow>
        ''Language grade is highly recommended for Soshum program'' \<in> set (validateForm S f))"
proof -
  have click: "validateForm (pairs pg) (inputs pg) \<noteq> [] \<longrightarrow>
      result (predictBtn_click pr rr pg) =
        \<lparr>main = ErrorItems (validateForm (pairs pg) (inputs pg)), tables = []\<rparr>
    \<and> requests (predictBtn_click pr rr pg) = requests pg
    \<and> pairs (predictBtn_click pr rr pg) = pairs pg
    \<and> inputs (predictBtn_click pr rr pg) = inputs pg"
    by (simp add: click_with_issues)
  have r1: "\<not> atLeastOneGradeFilled f \<longrightarrow>
        (''Please fill at least one of S1'' @ emDash @ ''S5 grades'') \<in> set (validateForm S f)"
    by (simp add: validateForm_eq)
  have r2: "getSelectedUniversities S = [] \<longrightarrow>
        ''Please select at least one target university'' \<in> set (validateForm S f)"
    by (simp add: validateForm_eq)
  have r3: "getSelectedMajors S = [] \<longrightarrow>
        ''Please select at least one target major'' \<in> set (validateForm S f)"
    by (simp add: validateForm_eq)
  have r4: "selected (S key University) = Some u \<and> u \<noteq> [] \<and> \<not> nonEmpty (selected (S key Major)) \<longrightarrow>
        (''Please select a major for Choice '' @ slotNumber key @ '' ('' @ u @ '')'')
          \<in> set (validateForm S f)"
    using missingMajor_issue [of S key u] missingMajor_in_issues [of _ S key f] by blast
  have r5: "val f ''program'' = Str ''saintek'' \<and> getSelectedMajors S \<noteq> []
        \<and> \<not> truthy (val f ''math'') \<longrightarrow>
        ''Math grade is highly recommended for Saintek program'' \<in> set (validateForm S f)"
    by (simp add: validateForm_eq)
  have r6: "val f ''program'' = Str ''saintek'' \<and> getSelectedMajors S \<noteq> []
        \<and> \<not> truthy (val f ''physics'') \<and> \<not> truthy (val f ''chemistry'')
        \<and> \<not> truthy (val f ''biology'') \<longrightarrow>
        ''At least one science subject (Physics/Chemistry/Biology) is recommended''
          \<in> set (validateForm S f)"
    by (simp add: validateForm_eq)
  have r7: "val f ''program'' = Str ''soshum'' \<and> getSelectedMajors S \<noteq> []
        \<and> \<not> truthy (val f ''language'') \<longrightarrow>
        ''Language grade is highly recommended for Soshum program'' \<in> set (validateForm S f)"
    by (simp add: validateForm_eq)
  from click r1 r2 r3 r4 r5 r6 r7 show ?thesis by blast
qed

theorem validation_blocks_submission_witness:
  "validateForm SELECTION_PAIRS Map.empty \<noteq> []
   \<and> result (predictBtn_click (Rejected ''offline'') (Rejected ''offline'')
               (freshPage SELECTION_PAIRS Map.empty)) =
       \<lparr>main = ErrorItems (validateForm SELECTION_PAIRS Map.empty), tables = []\<rparr>
   \<and> requests (predictBtn_click (Rejected ''offline'') (Rejected ''offline'')
               (freshPage SELECTION_PAIRS Map.empty)) = []
   \<and> (''Please fill at least one of S1'' @ emDash @ ''S5 grades'')
        \<in> set (validateForm SELECTION_PAIRS Map.empty)
   \<and> ''Please select at least one target university''
        \<in> set (validateForm SELECTION_PAIRS Map.empty)
   \<and> ''Please select at least one target major'' \<in> set (validateForm SELECTION_PAIRS Map.empty)
   \<and> ''Please select a major for Choice 3 (ITB)'' \<in> set (validateForm demoStore noScienceForm)
   \<and> ''Math grade is highly recommended for Saintek program''
        \<in> set (validateForm demoStore noScienceForm)
   \<and> ''At least one science subject (Physics/Chemistry/Biology) is recommended''
        \<in> set (validateForm demoStore noScienceForm)
   \<and> ''Language grade is highly recommended for Soshum program''
        \<in> set (validateForm secondOnly soshumForm)"
proof -
  let ?pg = "freshPage SELECTION_PAIRS Map.empty"
  have p: "pairs ?pg = SELECTION_PAIRS" "inputs ?pg = Map.empty" "requests ?pg = []"
    by (simp_all add: freshPage_def)
  have e1: "\<not> atLeastOneGradeFilled Map.empty" by code_simp
  have e2: "getSelectedUniversities SELECTION_PAIRS = []" by code_simp
  have e3: "getSelectedMajors SELECTION_PAIRS = []" by code_simp
  note a = validation_blocks_submission
    [of ?pg "Rejected ''offline''" "Rejected ''offline''" Map.empty SELECTION_PAIRS choice1 "[]"]
  from a e2 have i2: "''Please select at least one target university''
        \<in> set (validateForm SELECTION_PAIRS Map.empty)" by blast
  then have ne: "validateForm SELECTION_PAIRS Map.empty \<noteq> []" by auto
  from a e1 have i1: "(''Please fill at least one of S1'' @ emDash @ ''S5 grades'')
        \<in> set (validateForm SELECTION_PAIRS Map.empty)" by blast
  from a e3 have i3: "''Please select at least one target major''
        \<in> set (validateForm SELECTION_PAIRS Map.empty)" by blast
  from a ne p have c: "result (predictBtn_click (Rejected ''offline'') (Rejected ''offline'') ?pg) =
       \<lparr>main = ErrorItems (validateForm SELECTION_PAIRS Map.empty), tables = []\<rparr>
     \<and> requests (predictBtn_click (Rejected ''offline'') (Rejected ''offline'') ?pg) = []"
    by simp
  have b1: "selected (demoStore choice3 University) = Some ''ITB''" by code_simp
  have b2: "\<not> nonEmpty (selected (demoStore choice3 Major))" by code_simp
  have b3: "val noScienceForm ''program'' = Str ''saintek''" by code_simp
  have b4: "getSelectedMajors demoStore \<noteq> []" by code_simp
  have b5: "\<not> truthy (val noScienceForm ''math'')" "\<not> truthy (val noScienceForm ''physics'')"
    "\<not> truthy (val noScienceForm ''chemistry'')" "\<not> truthy (val noScienceForm ''biology'')"
    by code_simp+
  note b = validation_blocks_submission
    [of ?pg "Rejected ''offline''" "Rejected ''offline''" noScienceForm demoStore choice3 "''ITB''"]
  from b b1 b2 have i4: "(''Please select a major for Choice '' @ slotNumber choice3
        @ '' ('' @ ''ITB'' @ '')'') \<in> set (validateForm demoStore noScienceForm)"
    by blast
  then have i4': "''Please select a major for Choice 3 (ITB)''
        \<in> set (validateForm demoStore noScienceForm)"
    by (simp add: slotNumber_def)
  from b b3 b4 b5 have i5: "''Math grade is highly recommended for Saintek program''
        \<in> set (validateForm demoStore noScienceForm)" by blast
  from b b3 b4 b5 have i6:
    "''At least one science subject (Physics/Chemistry/Biology) is recommended''
        \<in> set (validateForm demoStore noScienceForm)" by blast
  have c1: "val soshumForm ''program'' = Str ''soshum''" by code_simp
  have c2: "getSelectedMajors secondOnly \<noteq> []" by code_simp
  have c3: "\<not> truthy (val soshumForm ''language'')" by code_simp
  from validation_blocks_submission
    [of ?pg "Rejected ''offline''" "Rejected ''offline''" soshumForm secondOnly choice1 "[]"]
    c1 c2 c3
  have i7: "''Language grade is highly recommended for Soshum program''
        \<in> set (validateForm secondOnly soshumForm)" by blast
  from ne c i1 i2 i3 i4' i5 i6 i7 show ?thesis by blast
qed

section \<open>Truthiness in the programme rules\<close>

lemma advisory_not_pairing:
  "''Math grade is highly recommended for Saintek program'' \<notin> set (missingMajor S key)"
  "''At least one science subject (Physics/Chemistry/Biology) is recommended''
     \<notin> set (missingMajor S key)"
  by (simp_all add: missingMajor_def split: option.splits)

lemma math_issue_iff_falsy:
  assumes "val f ''program'' = Str ''saintek''" "getSelectedMajors S \<noteq> []"
  shows "''Math grade is highly recommended for Saintek program'' \<in> set (validateForm S f)
         \<longleftrightarrow> \<not> truthy (val f ''math'')"
  using assms by (simp add: validateForm_eq advisory_not_pairing)

lemma science_issue_iff_falsy:
  assumes "val f ''program'' = Str ''saintek''" "getSelectedMajors S \<noteq> []"
  shows "''At least one science subject (Physics/Chemistry/Biology) is recommended''
           \<in> set (validateForm S f)
         \<longleftrightarrow> \<not> truthy (val f ''physics'') \<and> \<not> truthy (val f ''chemistry'')
             \<and> \<not> truthy (val f ''biology'')"
  using assms by (simp add: validateForm_eq advisory_not_pairing)

lemma val_not_NaN: "val f fid \<noteq> Num NaN"
  by (auto simp: val_def Let_def clamp_def Math_max_def Math_min_def ToNumber_def
        Math_round_number rank_not_grade split: option.splits if_splits number.splits)

lemma val_not_blank: "val f fid \<noteq> Str []"
  by (auto simp: val_def Let_def clamp_def split: option.splits if_splits)

lemma truthy_val_iff:
  "truthy (val f fid) \<longleftrightarrow> val f fid \<noteq> Undefined \<and> val f fid \<noteq> Num (Finite 0)"
  using val_not_NaN [of f fid] val_not_blank [of f fid]
  by (cases "val f fid") (auto simp: truthy_def)

text \<open>
  C2. The programme rules test \<open>!val(...)\<close>, so a grade counts as missing when \<open>val\<close> reads
  \<open>undefined\<close> or the number 0 (\<open>math_issue_iff_falsy\<close>, \<open>truthy_val_iff\<close>), while
  \<open>atLeastOneGradeFilled\<close> tests \<open>typeof val(...) === "number"\<close>. With programme
  \<open>saintek\<close> and a major selected: a math grade of \<open>"0"\<close> is a present number, and the
  math issue is reported; a math entry \<open>"abc"\<close> is no number, and no issue is reported;
  with no math and no science grade exactly the two advisory issues are reported.
\<close>

theorem math_grade_zero_reported_missing:
  "val zeroMathForm ''program'' = Str ''saintek''
   \<and> getSelectedMajors secondOnly = [''Fisika'']
   \<and> val zeroMathForm ''math'' = Num (Finite 0)
   \<and> validateForm secondOnly zeroMathForm =
        [''Math grade is highly recommended for Saintek program'']
   \<and> val textMathForm ''math'' = Str ''abc''
   \<and> validateForm secondOnly textMathForm = []
   \<and> validateForm secondOnly noScienceForm =
        [''Math grade is highly recommended for Saintek program'',
         ''At least one science subject (Physics/Chemistry/Biology) is recommended'']"
proof -
  have 1: "val zeroMathForm ''program'' = Str ''saintek''" by code_simp
  have 2: "getSelectedMajors secondOnly = [''Fisika'']" by code_simp
  have 3: "val zeroMathForm ''math'' = Num (Finite 0)" by code_simp
  have 4: "validateForm secondOnly zeroMathForm =
        [''Math grade is highly recommended for Saintek program'']" by code_simp
  have 5: "val textMathForm ''math'' = Str ''abc''" by code_simp
  have 6: "validateForm secondOnly textMathForm = []" by code_simp
  have 7: "validateForm secondOnly noScienceForm =
        [''Math grade is highly recommended for Saintek program'',
         ''At least one science subject (Physics/Chemistry/Biology) is recommended'']"
    by code_simp
  from 1 2 3 4 5 6 7 show ?thesis by blast
qed

end
